theory Spec2Isabelle
  imports Main "HOL-Library.Sublist" "HOL-Library.Char_ord" "HOL-Library.List_Lexorder"
begin

section \<open>The about pages of the browser shell (about_ui.cc)\<close>

text \<open>
  A shallow embedding of \<^verbatim>\<open>about_ui.cc\<close>: the region and locale fallback for the Play
  Store terms, the three handlers that load a document and answer through a callback, the
  static pages, and the data source that routes a request by its source name.

  The file is compiled under preprocessor conditions. They are kept as a record of
  booleans, so that one model covers every build.
\<close>

record build_config =
  IS_CHROMEOS_ASH :: bool      \<comment> \<open>\<^verbatim>\<open>BUILDFLAG(IS_CHROMEOS_ASH)\<close>\<close>
  OS_LINUX_LIKE :: bool        \<comment> \<open>\<^verbatim>\<open>OS_LINUX || OS_CHROMEOS || OS_OPENBSD\<close>\<close>
  OS_ANDROID :: bool           \<comment> \<open>\<^verbatim>\<open>OS_ANDROID\<close>\<close>

subsection \<open>Constants declared outside the file\<close>

text \<open>
  The \<^verbatim>\<open>chrome::\<close> constants are declared in headers that are not part of the source
  file. Their values are parameters of the model: every function that reads one takes the
  record \<open>K\<close>.
\<close>

record url_constants =
  kChromeUIChromeURLsHost :: string
  kChromeUICreditsHost :: string
  kChromeUILinuxProxyConfigHost :: string
  kChromeUIOSCreditsHost :: string
  kChromeUICrostiniCreditsHost :: string
  kChromeUITermsHost :: string
  kChromeUIOobeURL :: string
  kOemEulaURLPath :: string
  kArcTermsURLPath :: string
  kArcPrivacyPolicyURLPath :: string
  ArcTermsPath :: "string \<Rightarrow> string"
    \<comment> \<open>\<^verbatim>\<open>base::StringPrintf(chrome::kArcTermsPathFormat, locale.c_str())\<close>\<close>
  ArcPrivacyPolicyPath :: "string \<Rightarrow> string"
    \<comment> \<open>\<^verbatim>\<open>base::StringPrintf(chrome::kArcPrivacyPolicyPathFormat, locale.c_str())\<close>\<close>
  kChromeOSCreditsPath :: string
  kChromeHostURLs :: "string list"
  kChromeInternalsPathURLs :: "string list"
  kChromeDebugURLs :: "string list"

subsection \<open>Constants of the file\<close>

definition kCreditsJsPath :: string where "kCreditsJsPath = ''credits.js''"
definition kStatsJsPath :: string where "kStatsJsPath = ''stats.js''"
definition kStringsJsPath :: string where "kStringsJsPath = ''strings.js''"
definition kKeyboardUtilsPath :: string where "kKeyboardUtilsPath = ''keyboard_utils.js''"
definition kTerminaCreditsPath :: string where "kTerminaCreditsPath = ''about_os_credits.html''"

definition kApac :: string where "kApac = ''apac''"
definition kEmea :: string where "kEmea = ''emea''"
definition kEu :: string where "kEu = ''eu''"

definition kApacCountries :: "string list" where
  "kApacCountries = [''au'', ''bd'', ''cn'', ''hk'', ''id'', ''in'', ''jp'',
                     ''kh'', ''la'', ''lk'', ''mm'', ''mn'', ''my'', ''nz'',
                     ''np'', ''ph'', ''sg'', ''th'', ''tw'', ''vn'']"

definition kEmeaCountries :: "string list" where
  "kEmeaCountries = [''na'', ''za'', ''am'', ''az'', ''ch'', ''eg'', ''ge'',
                     ''il'', ''is'', ''ke'', ''kg'', ''li'', ''mk'', ''no'',
                     ''rs'', ''ru'', ''tr'', ''tz'', ''ua'', ''ug'', ''za'']"

definition kEuCountries :: "string list" where
  "kEuCountries = [''at'', ''be'', ''bg'', ''cz'', ''dk'', ''es'', ''fi'', ''fr'',
                   ''gb'', ''gr'', ''hr'', ''hu'', ''ie'', ''it'', ''lt'', ''lu'',
                   ''lv'', ''nl'', ''pl'', ''pt'', ''ro'', ''se'', ''si'', ''sk'']"

subsection \<open>Library helpers the file calls\<close>

text \<open>
  Modelled from the spec: \<^verbatim>\<open>base::ToLowerASCII\<close> (base/strings/string_util.h, not part
  of the source file). The spec's "lowercased": each of the letters A to Z becomes the
  matching letter of a to z, every other character stays.
\<close>

definition ToLowerASCII_char :: "char \<Rightarrow> char" where
  "ToLowerASCII_char c =
     (if CHR ''A'' \<le> c \<and> c \<le> CHR ''Z''
      then char_of (of_char c + (of_char CHR ''a'' - of_char CHR ''A'' :: nat))
      else c)"

definition ToLowerASCII :: "string \<Rightarrow> string" where
  "ToLowerASCII s = map ToLowerASCII_char s"

text \<open>
  Modelled from the spec: \<^verbatim>\<open>base::SplitString\<close> with its two flags and
  \<^verbatim>\<open>base::TrimString\<close> (base/strings, not part of the source file). The spec's
  "dot-delimited segment": the input is cut at every delimiter character, each piece is
  trimmed of ASCII whitespace under \<open>TRIM_WHITESPACE\<close>, and an empty piece is dropped under
  \<open>SPLIT_WANT_NONEMPTY\<close>. An empty input gives no piece at all.
\<close>

datatype WhitespaceHandling = KEEP_WHITESPACE | TRIM_WHITESPACE
datatype SplitResult = SPLIT_WANT_ALL | SPLIT_WANT_NONEMPTY

definition kWhitespaceASCII :: string where
  "kWhitespaceASCII = [CHR 0x09, CHR 0x0A, CHR 0x0B, CHR 0x0C, CHR 0x0D, CHR 0x20]"

definition TrimString :: "string \<Rightarrow> string \<Rightarrow> string" where
  "TrimString input trim_chars =
     rev (dropWhile (\<lambda>c. c \<in> set trim_chars)
       (rev (dropWhile (\<lambda>c. c \<in> set trim_chars) input)))"

function SplitString_pieces ::
  "string \<Rightarrow> WhitespaceHandling \<Rightarrow> SplitResult \<Rightarrow> string \<Rightarrow> string list" where
  "SplitString_pieces delimiter whitespace result_type str =
     (let piece = takeWhile (\<lambda>c. c \<notin> set delimiter) str;
          piece' = (if whitespace = TRIM_WHITESPACE
                    then TrimString piece kWhitespaceASCII else piece);
          out = (if result_type = SPLIT_WANT_ALL \<or> piece' \<noteq> [] then [piece'] else [])
      in case dropWhile (\<lambda>c. c \<notin> set delimiter) str of
           [] \<Rightarrow> out
         | _ # rest \<Rightarrow> out @ SplitString_pieces delimiter whitespace result_type rest)"
  by pat_completeness auto
termination
proof (relation "measure (\<lambda>(d, w, r, s). length s)")
  show "wf (measure (\<lambda>(d, w, r, s). length s))" by simp
next
  fix delimiter :: string and whitespace :: WhitespaceHandling and result_type :: SplitResult
    and str piece piece' :: string and out :: "string list" and x21 :: char and x22 :: string
  assume "dropWhile (\<lambda>c. c \<notin> set delimiter) str = x21 # x22"
  then have "length (x21 # x22) \<le> length str"
    using length_dropWhile_le [of "\<lambda>c. c \<notin> set delimiter" str] by simp
  then show "((delimiter, whitespace, result_type, x22), delimiter, whitespace, result_type, str)
      \<in> measure (\<lambda>(d, w, r, s). length s)"
    by simp
qed

declare SplitString_pieces.simps [simp del]

definition SplitString ::
  "string \<Rightarrow> string \<Rightarrow> WhitespaceHandling \<Rightarrow> SplitResult \<Rightarrow> string list" where
  "SplitString str delimiter whitespace result_type =
     (if str = [] then [] else SplitString_pieces delimiter whitespace result_type str)"

text \<open>
  Modelled from the spec: \<^verbatim>\<open>language::ExtractBaseLanguage\<close>
  (components/language/core/common/locale_util.h, not part of the source file). The spec's
  "base language" of a locale: the part before the first \<open>-\<close> or \<open>_\<close>.
\<close>

definition ExtractBaseLanguage :: "string \<Rightarrow> string" where
  "ExtractBaseLanguage language_code =
     (case SplitString language_code ''-_'' KEEP_WHITESPACE SPLIT_WANT_ALL of
        [] \<Rightarrow> []
      | main_part # _ \<Rightarrow> main_part)"

text \<open>
  Modelled from the spec: \<^verbatim>\<open>net::EscapeForHTML\<close> (net/base/escape.h, not part of the
  source file). The HTML-escaped form of a string: each of the five characters
  \<open><\<close>, \<open>>\<close>, \<open>&\<close>, the double quote and the apostrophe is replaced by its entity.
\<close>

definition AppendEscapedCharForHTML :: "char \<Rightarrow> string" where
  "AppendEscapedCharForHTML c =
     (if c = CHR ''<'' then ''&lt;''
      else if c = CHR ''>'' then ''&gt;''
      else if c = CHR ''&'' then ''&amp;''
      else if c = CHR 0x22 then ''&quot;''
      else if c = CHR 0x27 then ''&#39;''
      else [c])"

definition EscapeForHTML :: "string \<Rightarrow> string" where
  "EscapeForHTML input = concat (map AppendEscapedCharForHTML input)"

text \<open>
  Modelled from the spec: \<^verbatim>\<open>base::NumberToString\<close> on an \<^verbatim>\<open>int\<close>
  (base/strings/string_number_conversions.h, not part of the source file): the decimal
  digits, after a minus sign for a negative number. The digits are produced from the last
  one to the first, until the rest of the number is zero.
\<close>

fun IntToString_loop :: "nat \<Rightarrow> string \<Rightarrow> string" where
  "IntToString_loop res outbuf =
     (let outbuf = char_of (of_char CHR ''0'' + res mod 10 :: nat) # outbuf;
          res = res div 10
      in if res \<noteq> 0 then IntToString_loop res outbuf else outbuf)"

declare IntToString_loop.simps [simp del]

definition NumberToString :: "int \<Rightarrow> string" where
  "NumberToString i =
     (if i < 0 then CHR ''-'' # IntToString_loop (nat (- i)) [] else IntToString_loop (nat i) [])"

text \<open>
  Modelled from the spec: \<^verbatim>\<open>base::StartsWith\<close> with \<^verbatim>\<open>CompareCase::SENSITIVE\<close>
  (base/strings/string_util.h, not part of the source file): \<open>search_for\<close> is a prefix of
  \<open>str\<close>, character by character.
\<close>

definition StartsWith :: "string \<Rightarrow> string \<Rightarrow> bool" where
  "StartsWith str search_for = prefix search_for str"

subsection \<open>The host: everything the file reads from the browser\<close>

text \<open>
  The browser process, the resource bundle, the disk, the statistics provider and the
  component manager are collaborators of the file. Whatever the file reads from them is a
  field of the record \<open>h\<close>; a call that can fail returns \<open>None\<close> where the C++ returns
  \<^verbatim>\<open>false\<close> or a null pointer.
\<close>

datatype resource_id =
    IDS_TERMS_HTML
  | IDR_OS_CREDITS_HTML
  | IDR_KEYBOARD_UTILS_JS
  | IDS_CROSTINI_CREDITS_PLACEHOLDER
  | IDR_ABOUT_UI_CREDITS_HTML
  | IDR_ABOUT_UI_CREDITS_JS
  | IDS_ABOUT_LINUX_PROXY_CONFIG_TITLE
  | IDS_ABOUT_LINUX_PROXY_CONFIG_BODY
  | IDS_PRODUCT_NAME

text \<open>
  \<^verbatim>\<open>component_updater::CrOSComponentManager::Error\<close>: the file only compares it with
  \<^verbatim>\<open>Error::NONE\<close>, every other value is a failure with its code.
\<close>

datatype Error = NONE | FAILURE nat

record wizard_controller =
  demo_setup_controller :: "(string \<Rightarrow> string) option"
    \<comment> \<open>when present, its \<^verbatim>\<open>GetPreinstalledDemoResourcesPath\<close>\<close>

record host =
  GetApplicationLocale :: string
  GetMachineStatistic_kRegionKey :: "string option"
    \<comment> \<open>\<^verbatim>\<open>GetMachineStatistic(kRegionKey, &region)\<close>: the stored value when found\<close>
  ReadFileToString :: "string \<Rightarrow> string option"
  customization_IsReady :: bool
  GetEULAPage :: "string \<Rightarrow> string"
  FileURLToFilePath :: "string \<Rightarrow> string option"
  default_controller :: "wizard_controller option"
  Base64Encode :: "string \<Rightarrow> string"
  LoadLocalizedResourceString :: "resource_id \<Rightarrow> string"
  LoadDataResourceString :: "resource_id \<Rightarrow> string"
  GetStringUTF8 :: "resource_id \<Rightarrow> string"
  GetStringFUTF8 :: "resource_id \<Rightarrow> string \<Rightarrow> string \<Rightarrow> string"
  GetCredits :: "bool \<Rightarrow> string"
  GetProgram_BaseName :: string
  FilePath_Append :: "string \<Rightarrow> string \<Rightarrow> string"
  URLDataSource_GetAccessControlAllowOriginForOrigin :: "string \<Rightarrow> string"
    \<comment> \<open>the default of the base class \<^verbatim>\<open>content::URLDataSource\<close>\<close>
  cros_component_manager :: "(Error \<times> string) option"
    \<comment> \<open>\<open>None\<close>: no component manager; otherwise what \<^verbatim>\<open>Load\<close> of the Termina
        component hands to its callback\<close>

subsection \<open>Country, region and the locale lookup array\<close>

type_synonym CountryRegionMap = "string \<rightharpoonup> string"

text \<open>\<^verbatim>\<open>std::map::emplace\<close>: a key that is already there keeps its value.\<close>

definition emplace :: "CountryRegionMap \<Rightarrow> string \<Rightarrow> string \<Rightarrow> CountryRegionMap" where
  "emplace region_map k v = (case region_map k of None \<Rightarrow> region_map(k \<mapsto> v) | Some _ \<Rightarrow> region_map)"

definition CreateCountryRegionMap :: CountryRegionMap where
  "CreateCountryRegionMap =
     fold (\<lambda>c region_map. emplace region_map c kEu) kEuCountries
       (fold (\<lambda>c region_map. emplace region_map c kEmea) kEmeaCountries
         (fold (\<lambda>c region_map. emplace region_map c kApac) kApacCountries Map.empty))"

definition ReadDeviceRegionFromVpd :: "host \<Rightarrow> string" where
  "ReadDeviceRegionFromVpd h =
     (case GetMachineStatistic_kRegionKey h of
        Some region \<Rightarrow>
          (case SplitString region ''.'' TRIM_WHITESPACE SPLIT_WANT_NONEMPTY of
             [] \<Rightarrow> ToLowerASCII region
           | piece # _ \<Rightarrow> ToLowerASCII piece)
      | None \<Rightarrow> ToLowerASCII ''us'')"

definition CreateDemoResourcesTermsPath :: "host \<Rightarrow> string \<Rightarrow> string" where
  "CreateDemoResourcesTermsPath h file_path =
     (case default_controller h of
        None \<Rightarrow> []
      | Some wizard \<Rightarrow>
          (case demo_setup_controller wizard of
             None \<Rightarrow> []
           | Some GetPreinstalledDemoResourcesPath \<Rightarrow>
               GetPreinstalledDemoResourcesPath file_path))"

definition CreateArcLocaleLookupArray :: "host \<Rightarrow> string \<Rightarrow> string list" where
  "CreateArcLocaleLookupArray h locale =
     (let device_region = ReadDeviceRegionFromVpd h;
          locale_lookup_array =
            [ToLowerASCII (ExtractBaseLanguage locale) @ ''-'' @ device_region];
          locale_lookup_array =
            (case CreateCountryRegionMap device_region of
               Some region \<Rightarrow> locale_lookup_array @ [region]
             | None \<Rightarrow> locale_lookup_array)
      in locale_lookup_array @ [''en-us''])"

subsection \<open>The three handlers\<close>

text \<open>
  A handler object holds the sub-path, the callback and the contents read so far. The
  callback is a \<^verbatim>\<open>OnceCallback\<close>; the field \<open>callback_m\<close> (the member
  \<^verbatim>\<open>callback_\<close>) records the bodies it has been run with, in order, so that a callback that has not run yet is the empty list.
  \<^verbatim>\<open>RefCountedString::TakeString\<close> moves the contents out of the handler. A member
  \<^verbatim>\<open>path_\<close> of the class is the field \<open>path_m\<close>, and so on.
\<close>

record handler =
  path_m :: string
  callback_m :: "string list"
  contents_m :: string

record ChromeOSTermsHandler = handler +
  locale_m :: string

definition Run :: "'a handler_scheme \<Rightarrow> 'a handler_scheme" where
  "Run s = s\<lparr>callback_m := callback_m s @ [contents_m s], contents_m := []\<rparr>"

text \<open>
  \<^verbatim>\<open>base::ThreadPool::PostTaskAndReply\<close>: the pool runs the task and then posts the reply
  to the thread that asked. The model is the state once both have run.
  \<^verbatim>\<open>NOTREACHED()\<close> and \<^verbatim>\<open>DCHECK_CURRENTLY_ON\<close> do nothing in a release build and are
  left out.
\<close>

definition PostTaskAndReply :: "('s \<Rightarrow> 's) \<Rightarrow> ('s \<Rightarrow> 's) \<Rightarrow> 's \<Rightarrow> 's" where
  "PostTaskAndReply task reply s = reply (task s)"

paragraph \<open>ChromeOSTermsHandler\<close>

definition LoadOemEulaFileAsync :: "host \<Rightarrow> ChromeOSTermsHandler \<Rightarrow> ChromeOSTermsHandler" where
  "LoadOemEulaFileAsync h s =
     (if \<not> customization_IsReady h then s
      else case FileURLToFilePath h (GetEULAPage h (locale_m s)) of
             None \<Rightarrow> s
           | Some oem_eula_file_path \<Rightarrow>
               (case ReadFileToString h oem_eula_file_path of
                  None \<Rightarrow> s\<lparr>contents_m := []\<rparr>
                | Some contents \<Rightarrow> s\<lparr>contents_m := contents\<rparr>))"

fun LoadArcPrivacyPolicy_loop ::
  "host \<Rightarrow> url_constants \<Rightarrow> string list \<Rightarrow> ChromeOSTermsHandler \<Rightarrow> ChromeOSTermsHandler" where
  "LoadArcPrivacyPolicy_loop h K [] s = s\<lparr>contents_m := []\<rparr>"
| "LoadArcPrivacyPolicy_loop h K (locale # rest) s =
     (case ReadFileToString h (CreateDemoResourcesTermsPath h (ArcPrivacyPolicyPath K locale)) of
        Some contents \<Rightarrow> s\<lparr>contents_m := Base64Encode h contents\<rparr>
      | None \<Rightarrow> LoadArcPrivacyPolicy_loop h K rest s)"

definition LoadArcPrivacyPolicyFileAsync ::
  "host \<Rightarrow> url_constants \<Rightarrow> ChromeOSTermsHandler \<Rightarrow> ChromeOSTermsHandler" where
  "LoadArcPrivacyPolicyFileAsync h K s =
     LoadArcPrivacyPolicy_loop h K (CreateArcLocaleLookupArray h (locale_m s)) s"

fun LoadArcTerms_loop ::
  "host \<Rightarrow> url_constants \<Rightarrow> string list \<Rightarrow> ChromeOSTermsHandler \<Rightarrow> ChromeOSTermsHandler" where
  "LoadArcTerms_loop h K [] s = s\<lparr>contents_m := []\<rparr>"
| "LoadArcTerms_loop h K (locale # rest) s =
     (case ReadFileToString h (CreateDemoResourcesTermsPath h (ArcTermsPath K locale)) of
        Some contents \<Rightarrow> s\<lparr>contents_m := contents\<rparr>
      | None \<Rightarrow> LoadArcTerms_loop h K rest s)"

definition LoadArcTermsFileAsync ::
  "host \<Rightarrow> url_constants \<Rightarrow> ChromeOSTermsHandler \<Rightarrow> ChromeOSTermsHandler" where
  "LoadArcTermsFileAsync h K s =
     LoadArcTerms_loop h K (CreateArcLocaleLookupArray h (locale_m s)) s"

definition ChromeOSTermsHandler_ResponseOnUIThread ::
  "host \<Rightarrow> ChromeOSTermsHandler \<Rightarrow> ChromeOSTermsHandler" where
  "ChromeOSTermsHandler_ResponseOnUIThread h s =
     Run (if contents_m s = [] \<and> path_m s = []
          then s\<lparr>contents_m := LoadLocalizedResourceString h IDS_TERMS_HTML\<rparr>
          else s)"

definition ChromeOSTermsHandler_StartOnUIThread ::
  "host \<Rightarrow> url_constants \<Rightarrow> ChromeOSTermsHandler \<Rightarrow> ChromeOSTermsHandler" where
  "ChromeOSTermsHandler_StartOnUIThread h K s =
     (if path_m s = kOemEulaURLPath K then
        PostTaskAndReply (LoadOemEulaFileAsync h) (ChromeOSTermsHandler_ResponseOnUIThread h) s
      else if path_m s = kArcTermsURLPath K then
        PostTaskAndReply (LoadArcTermsFileAsync h K) (ChromeOSTermsHandler_ResponseOnUIThread h) s
      else if path_m s = kArcPrivacyPolicyURLPath K then
        PostTaskAndReply (LoadArcPrivacyPolicyFileAsync h K)
          (ChromeOSTermsHandler_ResponseOnUIThread h) s
      else ChromeOSTermsHandler_ResponseOnUIThread h s)"

definition ChromeOSTermsHandler_Start ::
  "host \<Rightarrow> url_constants \<Rightarrow> string \<Rightarrow> ChromeOSTermsHandler" where
  "ChromeOSTermsHandler_Start h K path =
     ChromeOSTermsHandler_StartOnUIThread h K
       \<lparr>path_m = path, callback_m = [], contents_m = [], locale_m = GetApplicationLocale h\<rparr>"

paragraph \<open>ChromeOSCreditsHandler\<close>

definition LoadCreditsFileAsync :: "host \<Rightarrow> url_constants \<Rightarrow> handler \<Rightarrow> handler" where
  "LoadCreditsFileAsync h K s =
     (case ReadFileToString h (kChromeOSCreditsPath K) of
        None \<Rightarrow> s\<lparr>contents_m := []\<rparr>
      | Some contents \<Rightarrow> s\<lparr>contents_m := contents\<rparr>)"

definition ChromeOSCreditsHandler_ResponseOnUIThread :: "host \<Rightarrow> handler \<Rightarrow> handler" where
  "ChromeOSCreditsHandler_ResponseOnUIThread h s =
     Run (if contents_m s = [] \<and> path_m s \<noteq> kKeyboardUtilsPath
          then s\<lparr>contents_m := LoadDataResourceString h IDR_OS_CREDITS_HTML\<rparr>
          else s)"

definition ChromeOSCreditsHandler_StartOnUIThread ::
  "host \<Rightarrow> url_constants \<Rightarrow> handler \<Rightarrow> handler" where
  "ChromeOSCreditsHandler_StartOnUIThread h K s =
     (if path_m s = kKeyboardUtilsPath then
        ChromeOSCreditsHandler_ResponseOnUIThread h
          (s\<lparr>contents_m := LoadDataResourceString h IDR_KEYBOARD_UTILS_JS\<rparr>)
      else
        PostTaskAndReply (LoadCreditsFileAsync h K) (ChromeOSCreditsHandler_ResponseOnUIThread h) s)"

definition ChromeOSCreditsHandler_Start :: "host \<Rightarrow> url_constants \<Rightarrow> string \<Rightarrow> handler" where
  "ChromeOSCreditsHandler_Start h K path =
     ChromeOSCreditsHandler_StartOnUIThread h K \<lparr>path_m = path, callback_m = [], contents_m = []\<rparr>"

paragraph \<open>CrostiniCreditsHandler\<close>

definition LoadCrostiniCreditsFileAsync :: "host \<Rightarrow> string \<Rightarrow> handler \<Rightarrow> handler" where
  "LoadCrostiniCreditsFileAsync h credits_file_path s =
     (case ReadFileToString h credits_file_path of
        None \<Rightarrow> s\<lparr>contents_m := []\<rparr>
      | Some contents \<Rightarrow> s\<lparr>contents_m := contents\<rparr>)"

definition CrostiniCreditsHandler_ResponseOnUIThread :: "host \<Rightarrow> handler \<Rightarrow> handler" where
  "CrostiniCreditsHandler_ResponseOnUIThread h s =
     Run (if contents_m s = [] \<and> path_m s \<noteq> kKeyboardUtilsPath
          then s\<lparr>contents_m := GetStringUTF8 h IDS_CROSTINI_CREDITS_PLACEHOLDER\<rparr>
          else s)"

definition RespondWithPlaceholder :: "host \<Rightarrow> handler \<Rightarrow> handler" where
  "RespondWithPlaceholder h s = CrostiniCreditsHandler_ResponseOnUIThread h (s\<lparr>contents_m := []\<rparr>)"

definition LoadCredits :: "host \<Rightarrow> string \<Rightarrow> handler \<Rightarrow> handler" where
  "LoadCredits h path s =
     PostTaskAndReply (LoadCrostiniCreditsFileAsync h path)
       (CrostiniCreditsHandler_ResponseOnUIThread h) s"

definition OnTerminaLoaded :: "host \<Rightarrow> Error \<Rightarrow> string \<Rightarrow> handler \<Rightarrow> handler" where
  "OnTerminaLoaded h error path s =
     (if error = NONE then LoadCredits h (FilePath_Append h path kTerminaCreditsPath) s
      else RespondWithPlaceholder h s)"

definition CrostiniCreditsHandler_StartOnUIThread :: "host \<Rightarrow> handler \<Rightarrow> handler" where
  "CrostiniCreditsHandler_StartOnUIThread h s =
     (if path_m s = kKeyboardUtilsPath then
        CrostiniCreditsHandler_ResponseOnUIThread h
          (s\<lparr>contents_m := LoadDataResourceString h IDR_KEYBOARD_UTILS_JS\<rparr>)
      else case cros_component_manager h of
             None \<Rightarrow> RespondWithPlaceholder h s
           | Some (error, path) \<Rightarrow> OnTerminaLoaded h error path s)"

definition CrostiniCreditsHandler_Start :: "host \<Rightarrow> string \<Rightarrow> handler" where
  "CrostiniCreditsHandler_Start h path =
     CrostiniCreditsHandler_StartOnUIThread h \<lparr>path_m = path, callback_m = [], contents_m = []\<rparr>"

subsection \<open>The static pages\<close>

definition AppendHeader :: "string \<Rightarrow> int \<Rightarrow> string \<Rightarrow> string" where
  "AppendHeader output refresh unescaped_title =
     (let output = output @ ''<!DOCTYPE HTML>\<newline><html>\<newline><head>\<newline>'';
          output = (if unescaped_title \<noteq> []
                    then output @ ''<title>'' @ EscapeForHTML unescaped_title
                           @ ''</title>\<newline>''
                    else output);
          output = output @ ''<meta charset='utf-8'>\<newline>''
      in if refresh > 0
         then output @ ''<meta http-equiv='refresh' content='' @ [CHR 0x27]
                @ NumberToString refresh @ [CHR 0x27] @ ''/>\<newline>''
         else output)"

definition AppendBody :: "string \<Rightarrow> string" where
  "AppendBody output = output @ ''</head>\<newline><body>\<newline>''"

definition AppendFooter :: "string \<Rightarrow> string" where
  "AppendFooter output = output @ ''</body>\<newline></html>\<newline>''"

definition ChromeURLs :: "url_constants \<Rightarrow> string" where
  "ChromeURLs K =
     (let html = AppendHeader [] 0 ''LT browser URLs'';
          html = AppendBody html;
          html = html @ ''<h2>List of Lt-Browser URLs</h2>\<newline><ul>\<newline>'';
          hosts = sort (kChromeHostURLs K);
          html = fold (\<lambda>host html.
                   html @ ''<li><a href='chrome://'' @ host @ ''/'>lt-browser://'' @ host
                        @ ''</a></li>\<newline>'') hosts html;
          html = html @ ''</ul><a id='' @ [CHR 0x22] @ ''internals'' @ [CHR 0x22]
                   @ ''><h2>List of lt-browser://internals pages</h2></a>\<newline><ul>\<newline>'';
          internals_paths = sort (kChromeInternalsPathURLs K);
          html = fold (\<lambda>path html.
                   html @ ''<li><a href='chrome://internals/'' @ path
                        @ [CHR 0x27] @ ''>lt-browser://internals/'' @ path
                        @ ''</a></li>\<newline>'') internals_paths html;
          html = html @ ''</ul>\<newline><h2>For Debug</h2>\<newline>''
                   @ ''<p>The following pages are for debugging purposes only. Because they ''
                   @ ''crash or hang the renderer, they're not linked directly; you can type ''
                   @ ''them into the address bar if you need them.</p>\<newline><ul>'';
          html = fold (\<lambda>url html. html @ ''<li>'' @ url @ ''</li>\<newline>'')
                   (kChromeDebugURLs K) html;
          html = html @ ''</ul>\<newline>''
      in AppendFooter html)"

definition AboutLinuxProxyConfig :: "host \<Rightarrow> string" where
  "AboutLinuxProxyConfig h =
     (let data = AppendHeader [] 0 (GetStringUTF8 h IDS_ABOUT_LINUX_PROXY_CONFIG_TITLE);
          data = data @ ''<style>body { max-width: 70ex; padding: 2ex 5ex; }</style>'';
          data = AppendBody data;
          data = data @ GetStringFUTF8 h IDS_ABOUT_LINUX_PROXY_CONFIG_BODY
                          (GetStringUTF8 h IDS_PRODUCT_NAME) (GetProgram_BaseName h)
      in AppendFooter data)"

subsection \<open>AboutUIHTMLSource\<close>

text \<open>
  A request is the source name of the data source and the sub-path of the URL
  (\<^verbatim>\<open>URLToRequestPath(url)\<close>). The result of \<open>StartDataRequest\<close> is the list of bodies the
  callback of the request has been run with.
\<close>

definition FinishDataRequest :: "string \<Rightarrow> string list" where
  "FinishDataRequest html = [html]"

definition StartDataRequest ::
  "build_config \<Rightarrow> url_constants \<Rightarrow> host \<Rightarrow> string \<Rightarrow> string \<Rightarrow> string list" where
  "StartDataRequest b K h source_name_m path =
     (let response = [] in
      if source_name_m = kChromeUIChromeURLsHost K then
        FinishDataRequest (ChromeURLs K)
      else if source_name_m = kChromeUICreditsHost K then
        (let idr = (if path = kCreditsJsPath then IDR_ABOUT_UI_CREDITS_JS
                    else if IS_CHROMEOS_ASH b \<and> path = kKeyboardUtilsPath
                    then IDR_KEYBOARD_UTILS_JS
                    else IDR_ABOUT_UI_CREDITS_HTML)
         in FinishDataRequest
              (if idr = IDR_ABOUT_UI_CREDITS_HTML then GetCredits h True
               else LoadDataResourceString h idr))
      else if OS_LINUX_LIKE b \<and> source_name_m = kChromeUILinuxProxyConfigHost K then
        FinishDataRequest (AboutLinuxProxyConfig h)
      else if IS_CHROMEOS_ASH b \<and> source_name_m = kChromeUIOSCreditsHost K then
        callback_m (ChromeOSCreditsHandler_Start h K path)
      else if IS_CHROMEOS_ASH b \<and> source_name_m = kChromeUICrostiniCreditsHost K then
        callback_m (CrostiniCreditsHandler_Start h path)
      else if \<not> OS_ANDROID b \<and> source_name_m = kChromeUITermsHost K then
        (if IS_CHROMEOS_ASH b \<and> path \<noteq> []
         then callback_m (ChromeOSTermsHandler_Start h K path)
         else FinishDataRequest (LoadLocalizedResourceString h IDS_TERMS_HTML))
      else FinishDataRequest response)"

definition GetMimeType :: "build_config \<Rightarrow> string \<Rightarrow> string" where
  "GetMimeType b path =
     (if path = kCreditsJsPath \<or>
         (IS_CHROMEOS_ASH b \<and> path = kKeyboardUtilsPath) \<or>
         path = kStatsJsPath \<or> path = kStringsJsPath
      then ''application/javascript''
      else ''text/html'')"

definition GetAccessControlAllowOriginForOrigin ::
  "build_config \<Rightarrow> url_constants \<Rightarrow> host \<Rightarrow> string \<Rightarrow> string \<Rightarrow> string" where
  "GetAccessControlAllowOriginForOrigin b K h source_name_m origin =
     (if IS_CHROMEOS_ASH b \<and> source_name_m = kChromeUITermsHost K \<and>
         StartsWith (kChromeUIOobeURL K) origin
      then origin
      else URLDataSource_GetAccessControlAllowOriginForOrigin h origin)"

subsection \<open>Concrete builds, constants and hosts\<close>

text \<open>
  Instances at which the theorems below are evaluated: the Chrome OS build and a desktop
  Linux build, one assignment of the constants declared outside the file, and a device
  on which nothing can be read: no region key, no file, no customization document, no
  wizard controller and no component manager. The two path formats put the locale up
  to its first NUL byte into the path, as \<^verbatim>\<open>%s\<close> does with \<^verbatim>\<open>locale.c_str()\<close>.
\<close>

definition ash_build :: build_config where
  "ash_build = \<lparr>IS_CHROMEOS_ASH = True, OS_LINUX_LIKE = True, OS_ANDROID = False\<rparr>"

definition linux_build :: build_config where
  "linux_build = \<lparr>IS_CHROMEOS_ASH = False, OS_LINUX_LIKE = True, OS_ANDROID = False\<rparr>"

definition chrome_constants :: url_constants where
  "chrome_constants =
     \<lparr>kChromeUIChromeURLsHost = ''chrome-urls'',
      kChromeUICreditsHost = ''credits'',
      kChromeUILinuxProxyConfigHost = ''linux-proxy-config'',
      kChromeUIOSCreditsHost = ''os-credits'',
      kChromeUICrostiniCreditsHost = ''crostini-credits'',
      kChromeUITermsHost = ''terms'',
      kChromeUIOobeURL = ''chrome://oobe/'',
      kOemEulaURLPath = ''oem'',
      kArcTermsURLPath = ''arc/terms'',
      kArcPrivacyPolicyURLPath = ''arc/privacy_policy'',
      ArcTermsPath =
        (\<lambda>locale. ''arc_tos/'' @ takeWhile (\<lambda>c. c \<noteq> CHR 0x00) locale @ ''/terms.html''),
      ArcPrivacyPolicyPath =
        (\<lambda>locale. ''arc_tos/'' @ takeWhile (\<lambda>c. c \<noteq> CHR 0x00) locale
           @ ''/privacy_policy.pdf''),
      kChromeOSCreditsPath = ''/opt/google/chrome/resources/about_os_credits.html'',
      kChromeHostURLs = [''version'', ''credits'', ''chrome-urls''],
      kChromeInternalsPathURLs = [''web-app''],
      kChromeDebugURLs = [''chrome://crash'', ''chrome://hang'']\<rparr>"

fun resource_string :: "resource_id \<Rightarrow> string" where
  "resource_string IDS_TERMS_HTML = ''<html>Terms of Service</html>''"
| "resource_string IDR_OS_CREDITS_HTML = ''<html>OS credits</html>''"
| "resource_string IDR_KEYBOARD_UTILS_JS = ''var keyboard = {};''"
| "resource_string IDS_CROSTINI_CREDITS_PLACEHOLDER = ''Linux credits are not available''"
| "resource_string IDR_ABOUT_UI_CREDITS_HTML = ''<html>Credits</html>''"
| "resource_string IDR_ABOUT_UI_CREDITS_JS = ''function toggle() {}''"
| "resource_string IDS_ABOUT_LINUX_PROXY_CONFIG_TITLE = ''Proxy Configuration Help''"
| "resource_string IDS_ABOUT_LINUX_PROXY_CONFIG_BODY = ''<p>Use the system proxy settings.</p>''"
| "resource_string IDS_PRODUCT_NAME = ''LT Browser''"

definition no_file :: "string \<Rightarrow> string option" where
  "no_file file_path = None"

definition file_url_path :: "string \<Rightarrow> string option" where
  "file_url_path url = (if prefix ''file://'' url then Some (drop 7 url) else None)"

definition bare_host :: host where
  "bare_host =
     \<lparr>GetApplicationLocale = ''en-US'',
      GetMachineStatistic_kRegionKey = None,
      ReadFileToString = no_file,
      customization_IsReady = False,
      GetEULAPage = (\<lambda>locale. ''file:///opt/oem/eula/'' @ locale @ ''/eula.html''),
      FileURLToFilePath = file_url_path,
      default_controller = None,
      Base64Encode = (\<lambda>input. ''base64,'' @ input),
      LoadLocalizedResourceString = resource_string,
      LoadDataResourceString = resource_string,
      GetStringUTF8 = resource_string,
      GetStringFUTF8 = (\<lambda>id a b. resource_string id @ a @ b),
      GetCredits = (\<lambda>include_scripts. resource_string IDR_ABOUT_UI_CREDITS_HTML),
      GetProgram_BaseName = ''chrome'',
      FilePath_Append = (\<lambda>path component. path @ ''/'' @ component),
      URLDataSource_GetAccessControlAllowOriginForOrigin = (\<lambda>origin. []),
      cros_component_manager = None\<rparr>"

text \<open>Two more devices: one whose Termina component fails to mount, and one where it
  mounts but holds no credits file.\<close>

definition mount_failed_host :: host where
  "mount_failed_host = bare_host\<lparr>cros_component_manager := Some (FAILURE 1, [])\<rparr>"

definition mounted_host :: host where
  "mounted_host =
     bare_host\<lparr>cros_component_manager := Some (NONE, ''/run/imageloader/cros-termina'')\<rparr>"

text \<open>
  A device that holds its OS credits file and nothing else, and a device in demo mode
  setup whose preinstalled demo resources hold the Play Store terms for \<open>en-us\<close>.
\<close>

definition credits_file :: "string \<Rightarrow> string option" where
  "credits_file file_path =
     (if file_path = ''/opt/google/chrome/resources/about_os_credits.html''
      then Some ''<html>Credits of this device</html>'' else None)"

definition credits_only_host :: host where
  "credits_only_host = bare_host\<lparr>ReadFileToString := credits_file\<rparr>"

definition demo_file :: "string \<Rightarrow> string option" where
  "demo_file file_path =
     (if file_path = ''/demo/arc_tos/en-us/terms.html'' then Some ''US terms'' else None)"

definition demo_host :: host where
  "demo_host =
     bare_host\<lparr>ReadFileToString := demo_file,
       default_controller :=
         Some \<lparr>demo_setup_controller = Some (\<lambda>file_path. ''/demo/'' @ file_path)\<rparr>\<rparr>"

section \<open>Properties\<close>

subsection \<open>Lemmas on the helpers\<close>

lemma ToLowerASCII_char_idem: "ToLowerASCII_char (ToLowerASCII_char c) = ToLowerASCII_char c"
  by (auto simp: ToLowerASCII_char_def less_eq_char_def)

lemma ToLowerASCII_idem: "ToLowerASCII (ToLowerASCII s) = ToLowerASCII s"
  by (simp add: ToLowerASCII_def ToLowerASCII_char_idem)

lemma ToLowerASCII_no_capital:
  "\<not> (CHR ''A'' \<le> ToLowerASCII_char c \<and> ToLowerASCII_char c \<le> CHR ''Z'')"
  by (auto simp: ToLowerASCII_char_def less_eq_char_def)

lemma fold_emplace:
  "fold (\<lambda>c region_map. emplace region_map c v) cs m k =
     (case m k of Some x \<Rightarrow> Some x | None \<Rightarrow> if k \<in> set cs then Some v else None)"
  by (induction cs arbitrary: m) (auto simp: emplace_def split: option.splits)

lemma CreateCountryRegionMap_lookup:
  "CreateCountryRegionMap k =
     (if k \<in> set kApacCountries then Some kApac
      else if k \<in> set kEmeaCountries then Some kEmea
      else if k \<in> set kEuCountries then Some kEu
      else None)"
  by (simp add: CreateCountryRegionMap_def fold_emplace)

text \<open>A string without delimiter and without whitespace is its own single piece.\<close>

lemma SplitString_single:
  assumes "str \<noteq> []" and "\<forall>c \<in> set str. c \<notin> set delimiter \<and> c \<notin> set kWhitespaceASCII"
  shows "SplitString str delimiter whitespace result_type = [str]"
proof -
  have tw: "takeWhile (\<lambda>c. c \<notin> set delimiter) str = str"
    using assms(2) by (simp add: takeWhile_eq_all_conv)
  have dw: "dropWhile (\<lambda>c. c \<notin> set delimiter) str = []"
    using assms(2) by simp
  have keep: "dropWhile (\<lambda>c. c \<in> set kWhitespaceASCII) xs = xs"
    if "\<forall>c \<in> set xs. c \<notin> set kWhitespaceASCII" for xs :: string
    using that by (cases xs) auto
  have tr: "TrimString str kWhitespaceASCII = str"
    using assms(2) by (simp add: TrimString_def keep [of str] keep [of "rev str"])
  show ?thesis
    using assms(1) by (simp add: SplitString_def SplitString_pieces.simps [of _ _ _ str] tw dw tr)
qed

lemma ToLowerASCII_special:
  "c \<in> set (''.'' @ kWhitespaceASCII) \<Longrightarrow> ToLowerASCII_char c = c"
  by (auto simp: kWhitespaceASCII_def ToLowerASCII_char_def less_eq_char_def)

lemma ToLowerASCII_plain:
  assumes "ToLowerASCII v = code" and "\<forall>c \<in> set code. c \<notin> set (''.'' @ kWhitespaceASCII)"
  shows "\<forall>c \<in> set v. c \<notin> set (''.'' @ kWhitespaceASCII)"
proof
  fix c assume "c \<in> set v"
  show "c \<notin> set (''.'' @ kWhitespaceASCII)"
  proof
    assume sp: "c \<in> set (''.'' @ kWhitespaceASCII)"
    have "ToLowerASCII_char c \<in> set code"
      using \<open>c \<in> set v\<close> assms(1) by (auto simp: ToLowerASCII_def)
    then show False using sp assms(2) ToLowerASCII_special [OF sp] by auto
  qed
qed

lemma countries_plain:
  "\<forall>code \<in> set (kApacCountries @ kEmeaCountries @ kEuCountries).
     code \<noteq> [] \<and> (\<forall>c \<in> set code. c \<notin> set (''.'' @ kWhitespaceASCII))"
  by (simp add: kApacCountries_def kEmeaCountries_def kEuCountries_def kWhitespaceASCII_def)

lemma country_lists_disjoint:
  "set kApacCountries \<inter> set kEmeaCountries = {}"
  "set kApacCountries \<inter> set kEuCountries = {}"
  "set kEmeaCountries \<inter> set kEuCountries = {}"
  by (simp_all add: kApacCountries_def kEmeaCountries_def kEuCountries_def)

lemma ReadDeviceRegionFromVpd_country:
  assumes "code \<in> set (kApacCountries @ kEmeaCountries @ kEuCountries)"
    and "ToLowerASCII v = code"
  shows "ReadDeviceRegionFromVpd (h\<lparr>GetMachineStatistic_kRegionKey := Some v\<rparr>) = code"
proof -
  from countries_plain assms(1)
  have ne: "code \<noteq> []" and pl: "\<forall>c \<in> set code. c \<notin> set (''.'' @ kWhitespaceASCII)" by blast+
  have v: "v \<noteq> []" using ne assms(2) by (auto simp: ToLowerASCII_def)
  have "\<forall>c \<in> set v. c \<notin> set ''.'' \<and> c \<notin> set kWhitespaceASCII"
    using ToLowerASCII_plain [OF assms(2) pl] by simp
  then have "SplitString v ''.'' TRIM_WHITESPACE SPLIT_WANT_NONEMPTY = [v]"
    using v by (rule_tac SplitString_single) auto
  then show ?thesis by (simp add: ReadDeviceRegionFromVpd_def assms(2))
qed

lemmas region_eval = ReadDeviceRegionFromVpd_def SplitString_def SplitString_pieces.simps
  TrimString_def kWhitespaceASCII_def ToLowerASCII_def ToLowerASCII_char_def less_eq_char_def
  char_of_def bit_Suc_0_iff

lemma lookup_array_for_country:
  assumes "code \<in> set cs" and "cs = kApacCountries \<or> cs = kEmeaCountries \<or> cs = kEuCountries"
    and "ToLowerASCII v = code"
  shows "ReadDeviceRegionFromVpd (h\<lparr>GetMachineStatistic_kRegionKey := Some v\<rparr>) = code"
    and "CreateArcLocaleLookupArray (h\<lparr>GetMachineStatistic_kRegionKey := Some v\<rparr>) locale =
           [ToLowerASCII (ExtractBaseLanguage locale) @ ''-'' @ code,
            the (CreateCountryRegionMap code), ''en-us'']"
    and "CreateCountryRegionMap code \<noteq> None"
proof -
  have mem: "code \<in> set (kApacCountries @ kEmeaCountries @ kEuCountries)"
    using assms(1,2) by auto
  show r: "ReadDeviceRegionFromVpd (h\<lparr>GetMachineStatistic_kRegionKey := Some v\<rparr>) = code"
    by (rule ReadDeviceRegionFromVpd_country [OF mem assms(3)])
  show m: "CreateCountryRegionMap code \<noteq> None"
    using mem by (auto simp: CreateCountryRegionMap_lookup)
  show "CreateArcLocaleLookupArray (h\<lparr>GetMachineStatistic_kRegionKey := Some v\<rparr>) locale =
           [ToLowerASCII (ExtractBaseLanguage locale) @ ''-'' @ code,
            the (CreateCountryRegionMap code), ''en-us'']"
    using m unfolding CreateArcLocaleLookupArray_def Let_def r by (auto split: option.splits)
qed

subsection \<open>The locale lookup array\<close>

text \<open>
  Claim C2. For every UI locale and every device region, the lookup array is, in order:
  the lowercased base language of the locale, a \<open>-\<close> and the region code read from the
  device; then the region label (apac, emea or eu) when the region code is one of the
  listed countries, and nothing otherwise; then \<open>en-us\<close>. Region \<open>jp\<close> with locale \<open>ja\<close>
  gives \<open>ja-jp\<close>, \<open>apac\<close>, \<open>en-us\<close>; the unlisted region \<open>xx\<close> with locale \<open>en\<close> gives
  \<open>en-xx\<close>, \<open>en-us\<close>.
\<close>

theorem CreateArcLocaleLookupArray_order:
  "CreateArcLocaleLookupArray h locale =
     [ToLowerASCII (ExtractBaseLanguage locale) @ ''-'' @ ReadDeviceRegionFromVpd h]
     @ (if ReadDeviceRegionFromVpd h \<in> set kApacCountries then [''apac'']
        else if ReadDeviceRegionFromVpd h \<in> set kEmeaCountries then [''emea'']
        else if ReadDeviceRegionFromVpd h \<in> set kEuCountries then [''eu'']
        else [])
     @ [''en-us'']
   \<and> CreateArcLocaleLookupArray (h\<lparr>GetMachineStatistic_kRegionKey := Some ''jp''\<rparr>) ''ja''
       = [''ja-jp'', ''apac'', ''en-us'']
   \<and> CreateArcLocaleLookupArray (h\<lparr>GetMachineStatistic_kRegionKey := Some ''xx''\<rparr>) ''en''
       = [''en-xx'', ''en-us'']"
proof (intro conjI)
  show "CreateArcLocaleLookupArray h locale =
     [ToLowerASCII (ExtractBaseLanguage locale) @ ''-'' @ ReadDeviceRegionFromVpd h]
     @ (if ReadDeviceRegionFromVpd h \<in> set kApacCountries then [''apac'']
        else if ReadDeviceRegionFromVpd h \<in> set kEmeaCountries then [''emea'']
        else if ReadDeviceRegionFromVpd h \<in> set kEuCountries then [''eu'']
        else [])
     @ [''en-us'']"
    by (simp add: CreateArcLocaleLookupArray_def CreateCountryRegionMap_lookup Let_def
        kApac_def kEmea_def kEu_def)
next
  have r: "ReadDeviceRegionFromVpd (h\<lparr>GetMachineStatistic_kRegionKey := Some ''jp''\<rparr>) = ''jp''"
    by (simp add: region_eval)
  have l: "ToLowerASCII (ExtractBaseLanguage ''ja'') = ''ja''"
    by code_simp
  have m: "CreateCountryRegionMap ''jp'' = Some ''apac''"
    by (simp add: CreateCountryRegionMap_lookup kApacCountries_def kApac_def)
  show "CreateArcLocaleLookupArray (h\<lparr>GetMachineStatistic_kRegionKey := Some ''jp''\<rparr>) ''ja''
       = [''ja-jp'', ''apac'', ''en-us'']"
    by (simp add: CreateArcLocaleLookupArray_def Let_def r l m)
next
  have r: "ReadDeviceRegionFromVpd (h\<lparr>GetMachineStatistic_kRegionKey := Some ''xx''\<rparr>) = ''xx''"
    by (simp add: region_eval)
  have l: "ToLowerASCII (ExtractBaseLanguage ''en'') = ''en''"
    by code_simp
  have m: "CreateCountryRegionMap ''xx'' = None"
    by (simp add: CreateCountryRegionMap_lookup kApacCountries_def kEmeaCountries_def
        kEuCountries_def)
  show "CreateArcLocaleLookupArray (h\<lparr>GetMachineStatistic_kRegionKey := Some ''xx''\<rparr>) ''en''
       = [''en-xx'', ''en-us'']"
    by (simp add: CreateArcLocaleLookupArray_def Let_def r l m)
qed

subsection \<open>The device region\<close>

text \<open>
  What \<open>ReadDeviceRegionFromVpd\<close> does where claim C3 holds: a missing key gives \<open>us\<close>,
  a value with a non-empty segment gives its first segment, trimmed, and the result is
  always in lower case.
\<close>

lemma ReadDeviceRegionFromVpd_absent:
  "GetMachineStatistic_kRegionKey h = None \<Longrightarrow> ReadDeviceRegionFromVpd h = ''us''"
  by (simp add: region_eval)

lemma ReadDeviceRegionFromVpd_first_piece:
  "GetMachineStatistic_kRegionKey h = Some region \<Longrightarrow>
   SplitString region ''.'' TRIM_WHITESPACE SPLIT_WANT_NONEMPTY = piece # pieces \<Longrightarrow>
   ReadDeviceRegionFromVpd h = ToLowerASCII piece"
  by (simp add: ReadDeviceRegionFromVpd_def)

lemma ReadDeviceRegionFromVpd_examples:
  "ReadDeviceRegionFromVpd (h\<lparr>GetMachineStatistic_kRegionKey := Some ''ca.ansi''\<rparr>) = ''ca''
   \<and> ReadDeviceRegionFromVpd (h\<lparr>GetMachineStatistic_kRegionKey := Some ''GB''\<rparr>) = ''gb''"
  by (simp add: region_eval)

lemma ReadDeviceRegionFromVpd_lower:
  "ToLowerASCII (ReadDeviceRegionFromVpd h) = ReadDeviceRegionFromVpd h"
  by (simp add: ReadDeviceRegionFromVpd_def ToLowerASCII_idem split: option.splits list.splits)

text \<open>
  Claim C3 says that reading the device region returns \<open>us\<close> whenever the stored key is
  absent or malformed, and the comment above the function says the same ("Returns us in
  case of read or parsing errors"). The function does so for an absent key only. A stored
  value without any non-empty segment is returned as it is stored: the value \<open>.\<close> gives
  \<open>.\<close>, the empty value gives the empty string, and blanks around a dot are returned
  unchanged.
\<close>

theorem ReadDeviceRegionFromVpd_malformed_value:
  "ReadDeviceRegionFromVpd (h\<lparr>GetMachineStatistic_kRegionKey := Some ''.''\<rparr>) = ''.''
   \<and> ReadDeviceRegionFromVpd (h\<lparr>GetMachineStatistic_kRegionKey := Some ''''\<rparr>) = ''''
   \<and> ReadDeviceRegionFromVpd (h\<lparr>GetMachineStatistic_kRegionKey := Some '' . ''\<rparr>) = '' . ''"
  by (simp add: region_eval)

subsection \<open>Countries and regions\<close>

text \<open>
  Claim C5. Every code of the APAC, EMEA and EU lists, in whatever letter case the device
  stores it, is read as the lowercased code, maps to the label of its list, and that label
  is the second entry of the lookup array. A region code in none of the three lists has no
  entry in the map, and the lookup array has no region label: it is the language and region
  entry followed by \<open>en-us\<close>.
\<close>

theorem country_region_lookup:
  "(\<forall>code \<in> set kApacCountries. \<forall>v. ToLowerASCII v = code \<longrightarrow>
      ReadDeviceRegionFromVpd (h\<lparr>GetMachineStatistic_kRegionKey := Some v\<rparr>) = code
      \<and> CreateCountryRegionMap code = Some ''apac''
      \<and> CreateArcLocaleLookupArray (h\<lparr>GetMachineStatistic_kRegionKey := Some v\<rparr>) locale =
          [ToLowerASCII (ExtractBaseLanguage locale) @ ''-'' @ code, ''apac'', ''en-us''])
   \<and> (\<forall>code \<in> set kEmeaCountries. \<forall>v. ToLowerASCII v = code \<longrightarrow>
      ReadDeviceRegionFromVpd (h\<lparr>GetMachineStatistic_kRegionKey := Some v\<rparr>) = code
      \<and> CreateCountryRegionMap code = Some ''emea''
      \<and> CreateArcLocaleLookupArray (h\<lparr>GetMachineStatistic_kRegionKey := Some v\<rparr>) locale =
          [ToLowerASCII (ExtractBaseLanguage locale) @ ''-'' @ code, ''emea'', ''en-us''])
   \<and> (\<forall>code \<in> set kEuCountries. \<forall>v. ToLowerASCII v = code \<longrightarrow>
      ReadDeviceRegionFromVpd (h\<lparr>GetMachineStatistic_kRegionKey := Some v\<rparr>) = code
      \<and> CreateCountryRegionMap code = Some ''eu''
      \<and> CreateArcLocaleLookupArray (h\<lparr>GetMachineStatistic_kRegionKey := Some v\<rparr>) locale =
          [ToLowerASCII (ExtractBaseLanguage locale) @ ''-'' @ code, ''eu'', ''en-us''])
   \<and> (ReadDeviceRegionFromVpd h \<notin> set (kApacCountries @ kEmeaCountries @ kEuCountries) \<longrightarrow>
      CreateCountryRegionMap (ReadDeviceRegionFromVpd h) = None
      \<and> CreateArcLocaleLookupArray h locale =
          [ToLowerASCII (ExtractBaseLanguage locale) @ ''-'' @ ReadDeviceRegionFromVpd h,
           ''en-us''])"
proof (intro conjI ballI allI impI)
  fix code v assume c: "code \<in> set kApacCountries" and v: "ToLowerASCII v = code"
  show "ReadDeviceRegionFromVpd (h\<lparr>GetMachineStatistic_kRegionKey := Some v\<rparr>) = code"
    using lookup_array_for_country(1) [OF c _ v] by simp
  show m: "CreateCountryRegionMap code = Some ''apac''"
    using c by (simp add: CreateCountryRegionMap_lookup kApac_def)
  show "CreateArcLocaleLookupArray (h\<lparr>GetMachineStatistic_kRegionKey := Some v\<rparr>) locale =
          [ToLowerASCII (ExtractBaseLanguage locale) @ ''-'' @ code, ''apac'', ''en-us'']"
    using lookup_array_for_country(2) [OF c _ v] m by simp
next
  fix code v assume c: "code \<in> set kEmeaCountries" and v: "ToLowerASCII v = code"
  show "ReadDeviceRegionFromVpd (h\<lparr>GetMachineStatistic_kRegionKey := Some v\<rparr>) = code"
    using lookup_array_for_country(1) [OF c _ v] by simp
  show m: "CreateCountryRegionMap code = Some ''emea''"
    using c country_lists_disjoint by (auto simp: CreateCountryRegionMap_lookup kEmea_def)
  show "CreateArcLocaleLookupArray (h\<lparr>GetMachineStatistic_kRegionKey := Some v\<rparr>) locale =
          [ToLowerASCII (ExtractBaseLanguage locale) @ ''-'' @ code, ''emea'', ''en-us'']"
    using lookup_array_for_country(2) [OF c _ v] m by simp
next
  fix code v assume c: "code \<in> set kEuCountries" and v: "ToLowerASCII v = code"
  show "ReadDeviceRegionFromVpd (h\<lparr>GetMachineStatistic_kRegionKey := Some v\<rparr>) = code"
    using lookup_array_for_country(1) [OF c _ v] by simp
  show m: "CreateCountryRegionMap code = Some ''eu''"
    using c country_lists_disjoint by (auto simp: CreateCountryRegionMap_lookup kEu_def)
  show "CreateArcLocaleLookupArray (h\<lparr>GetMachineStatistic_kRegionKey := Some v\<rparr>) locale =
          [ToLowerASCII (ExtractBaseLanguage locale) @ ''-'' @ code, ''eu'', ''en-us'']"
    using lookup_array_for_country(2) [OF c _ v] m by simp
next
  assume n: "ReadDeviceRegionFromVpd h \<notin> set (kApacCountries @ kEmeaCountries @ kEuCountries)"
  then show m: "CreateCountryRegionMap (ReadDeviceRegionFromVpd h) = None"
    by (simp add: CreateCountryRegionMap_lookup)
  show "CreateArcLocaleLookupArray h locale =
          [ToLowerASCII (ExtractBaseLanguage locale) @ ''-'' @ ReadDeviceRegionFromVpd h,
           ''en-us'']"
    by (simp add: CreateArcLocaleLookupArray_def Let_def m)
qed

text \<open>
  Claim C5 at concrete devices: the stored values \<open>JP\<close>, \<open>Za\<close> and \<open>gB\<close> are codes of
  the three lists in another letter case, \<open>BR\<close> is in none of them.
\<close>

theorem country_region_lookup_witness:
  "''jp'' \<in> set kApacCountries \<and> ToLowerASCII ''JP'' = ''jp''
   \<and> CreateArcLocaleLookupArray (bare_host\<lparr>GetMachineStatistic_kRegionKey := Some ''JP''\<rparr>) ''ja-JP''
     = [''ja-jp'', ''apac'', ''en-us'']
   \<and> ''za'' \<in> set kEmeaCountries \<and> ToLowerASCII ''Za'' = ''za''
   \<and> CreateArcLocaleLookupArray (bare_host\<lparr>GetMachineStatistic_kRegionKey := Some ''Za''\<rparr>) ''en-ZA''
     = [''en-za'', ''emea'', ''en-us'']
   \<and> ''gb'' \<in> set kEuCountries \<and> ToLowerASCII ''gB'' = ''gb''
   \<and> CreateArcLocaleLookupArray (bare_host\<lparr>GetMachineStatistic_kRegionKey := Some ''gB''\<rparr>) ''en_GB''
     = [''en-gb'', ''eu'', ''en-us'']
   \<and> ReadDeviceRegionFromVpd (bare_host\<lparr>GetMachineStatistic_kRegionKey := Some ''BR''\<rparr>)
       \<notin> set (kApacCountries @ kEmeaCountries @ kEuCountries)
   \<and> CreateArcLocaleLookupArray (bare_host\<lparr>GetMachineStatistic_kRegionKey := Some ''BR''\<rparr>) ''pt-BR''
     = [''pt-br'', ''en-us'']"
proof -
  have low: "ToLowerASCII ''JP'' = ''jp''" "ToLowerASCII ''Za'' = ''za''"
    "ToLowerASCII ''gB'' = ''gb''"
    by code_simp+
  have lang: "ToLowerASCII (ExtractBaseLanguage ''ja-JP'') = ''ja''"
    "ToLowerASCII (ExtractBaseLanguage ''en-ZA'') = ''en''"
    "ToLowerASCII (ExtractBaseLanguage ''en_GB'') = ''en''"
    "ToLowerASCII (ExtractBaseLanguage ''pt-BR'') = ''pt''"
    by code_simp+
  have mem: "''jp'' \<in> set kApacCountries" "''za'' \<in> set kEmeaCountries"
    "''gb'' \<in> set kEuCountries"
    by (simp_all add: kApacCountries_def kEmeaCountries_def kEuCountries_def)
  have br: "ReadDeviceRegionFromVpd (bare_host\<lparr>GetMachineStatistic_kRegionKey := Some ''BR''\<rparr>)
      = ''br''"
    by (simp add: region_eval)
  have absent: "''br'' \<notin> set (kApacCountries @ kEmeaCountries @ kEuCountries)"
    by (simp add: kApacCountries_def kEmeaCountries_def kEuCountries_def)
  show ?thesis
    using country_region_lookup [of bare_host "''ja-JP''", THEN conjunct1, rule_format,
          OF mem(1) low(1)]
      country_region_lookup [of bare_host "''en-ZA''", THEN conjunct2, THEN conjunct1,
          rule_format, OF mem(2) low(2)]
      country_region_lookup [of bare_host "''en_GB''", THEN conjunct2, THEN conjunct2,
          THEN conjunct1, rule_format, OF mem(3) low(3)]
      country_region_lookup [of "bare_host\<lparr>GetMachineStatistic_kRegionKey := Some ''BR''\<rparr>"
          "''pt-BR''", THEN conjunct2, THEN conjunct2, THEN conjunct2, rule_format]
      absent mem low
    by (simp add: lang br)
qed

subsection \<open>The data source: MIME type, unknown sources, cross-origin access\<close>

text \<open>
  Claim C6. \<open>GetMimeType\<close> answers \<open>application/javascript\<close> exactly for the script
  paths \<open>credits.js\<close>, \<open>stats.js\<close>, \<open>strings.js\<close> and, in the Chrome OS build,
  \<open>keyboard_utils.js\<close>; it answers \<open>text/html\<close> for every other path.
\<close>

theorem GetMimeType_script_paths:
  "(GetMimeType b path = ''application/javascript'') =
     (path = ''credits.js'' \<or> path = ''stats.js'' \<or> path = ''strings.js'' \<or>
      (IS_CHROMEOS_ASH b \<and> path = ''keyboard_utils.js''))
   \<and> (GetMimeType b path = ''text/html'') =
     (\<not> (path = ''credits.js'' \<or> path = ''stats.js'' \<or> path = ''strings.js'' \<or>
      (IS_CHROMEOS_ASH b \<and> path = ''keyboard_utils.js'')))"
  by (auto simp: GetMimeType_def kCreditsJsPath_def kStatsJsPath_def kStringsJsPath_def
      kKeyboardUtilsPath_def)

text \<open>
  Claim C8. A request whose source name is none of the known host names falls through
  every branch of the router: the callback is run once, with the empty body.
\<close>

theorem StartDataRequest_unknown_source:
  assumes "source_name \<noteq> kChromeUIChromeURLsHost K"
    and "source_name \<noteq> kChromeUICreditsHost K"
    and "source_name \<noteq> kChromeUILinuxProxyConfigHost K"
    and "source_name \<noteq> kChromeUIOSCreditsHost K"
    and "source_name \<noteq> kChromeUICrostiniCreditsHost K"
    and "source_name \<noteq> kChromeUITermsHost K"
  shows "StartDataRequest b K h source_name path = ['''']"
  using assms by (simp add: StartDataRequest_def FinishDataRequest_def)

text \<open>Claim C8 at the source name \<open>settings\<close>, which is none of the six host names.\<close>

theorem StartDataRequest_unknown_source_witness:
  "''settings'' \<notin> set [kChromeUIChromeURLsHost chrome_constants,
       kChromeUICreditsHost chrome_constants, kChromeUILinuxProxyConfigHost chrome_constants,
       kChromeUIOSCreditsHost chrome_constants, kChromeUICrostiniCreditsHost chrome_constants,
       kChromeUITermsHost chrome_constants]
   \<and> StartDataRequest ash_build chrome_constants bare_host ''settings'' ''index.html'' = ['''']"
  using StartDataRequest_unknown_source
    [of "''settings''" chrome_constants ash_build bare_host "''index.html''"]
  by (simp add: chrome_constants_def)

text \<open>
  Claim C9. In the Chrome OS build, \<open>GetAccessControlAllowOriginForOrigin\<close> returns the
  requesting origin exactly when the source is the terms host and the OOBE URL starts with
  the origin; in every other case, and in every other build, it returns what the base
  class returns. So every prefix of the OOBE URL is granted access, not only the OOBE
  origin itself: with the OOBE URL \<open>chrome://oobe/\<close>, the origin \<open>chrome://o\<close> is granted.
\<close>

theorem GetAccessControlAllowOriginForOrigin_prefix:
  "GetAccessControlAllowOriginForOrigin b K h source_name origin =
     (if IS_CHROMEOS_ASH b \<and> source_name = kChromeUITermsHost K
         \<and> prefix origin (kChromeUIOobeURL K)
      then origin
      else URLDataSource_GetAccessControlAllowOriginForOrigin h origin)
   \<and> GetAccessControlAllowOriginForOrigin (b\<lparr>IS_CHROMEOS_ASH := True\<rparr>) K h
         (kChromeUITermsHost K) (take n (kChromeUIOobeURL K)) = take n (kChromeUIOobeURL K)
   \<and> GetAccessControlAllowOriginForOrigin ash_build chrome_constants h ''terms'' ''chrome://o''
         = ''chrome://o''"
  by (simp add: GetAccessControlAllowOriginForOrigin_def StartsWith_def take_is_prefix
      ash_build_def chrome_constants_def)

subsection \<open>The page header\<close>

lemma escaped_char:
  "set (AppendEscapedCharForHTML c) \<inter> {CHR ''<'', CHR ''>'', CHR 0x22, CHR 0x27} = {}"
  by (simp add: AppendEscapedCharForHTML_def)

lemma EscapeForHTML_no_markup:
  "set (EscapeForHTML input) \<inter> {CHR ''<'', CHR ''>'', CHR 0x22, CHR 0x27} = {}"
proof (induction input)
  case Nil
  then show ?case by (simp add: EscapeForHTML_def)
next
  case (Cons c input)
  then show ?case using escaped_char [of c] by (simp add: EscapeForHTML_def Int_Un_distrib2)
qed

lemma digit_code: "(of_char (char_of (of_char CHR ''0'' + res mod 10 :: nat)) :: nat) < 58"
proof -
  have "res mod 10 < 10" by simp
  then have "(48 + res mod 10) mod 256 < 58" by simp
  then show ?thesis by (simp add: of_char_of)
qed

lemma IntToString_loop_codes:
  "\<forall>c \<in> set outbuf. (of_char c :: nat) < 58 \<Longrightarrow>
   \<forall>c \<in> set (IntToString_loop res outbuf). (of_char c :: nat) < 58"
proof (induction res outbuf rule: IntToString_loop.induct)
  case (1 res outbuf)
  let ?out = "char_of (of_char CHR ''0'' + res mod 10 :: nat) # outbuf"
  have out: "\<forall>c \<in> set ?out. (of_char c :: nat) < 58"
    using 1(2) digit_code [of res] by simp
  show ?case
  proof (cases "res div 10 \<noteq> 0")
    case True
    have "IntToString_loop res outbuf = IntToString_loop (res div 10) ?out"
      using True by (subst IntToString_loop.simps) (simp add: Let_def)
    moreover have "\<forall>c \<in> set (IntToString_loop (res div 10) ?out). (of_char c :: nat) < 58"
      using 1(1) [OF refl refl True] out by blast
    ultimately show ?thesis by simp
  next
    case False
    have "IntToString_loop res outbuf = ?out"
      using False by (subst IntToString_loop.simps) (simp add: Let_def)
    then show ?thesis using out by simp
  qed
qed

lemma NumberToString_codes: "\<forall>c \<in> set (NumberToString i). (of_char c :: nat) < 58"
  using IntToString_loop_codes [of "[]"] by (simp add: NumberToString_def)

lemma title_tag_codes: "\<forall>c \<in> set ''<title>''. (of_char c :: nat) \<ge> 60"
  by simp
lemma no_title_tag_around_number:
  assumes A: "\<not> sublist ''<title>'' A"
    and D: "\<forall>c \<in> set D. (of_char c :: nat) < 58"
    and B: "B = CHR 0x27 # B'" "CHR ''<'' \<notin> set B'"
  shows "\<not> sublist ''<title>'' (A @ D @ B)"
proof
  assume "sublist ''<title>'' (A @ D @ B)"
  then consider "sublist ''<title>'' A" | "sublist ''<title>'' (D @ B)"
    | xs1 xs2 where "''<title>'' = xs1 @ xs2" "suffix xs1 A" "prefix xs2 (D @ B)"
    by (auto simp: sublist_append [of _ A])
  then show False
  proof cases
    case 1
    then show ?thesis using A by simp
  next
    case 2
    then have "set ''<title>'' \<subseteq> set (D @ B)" by (rule set_mono_sublist)
    then have "CHR ''<'' \<in> set D \<union> set B" by auto
    then show ?thesis using D B by auto
  next
    case 3
    show ?thesis
    proof (cases xs2)
      case Nil
      then have "suffix ''<title>'' A" using 3 by simp
      then have "sublist ''<title>'' A" by (rule suffix_imp_sublist)
      then show ?thesis using A by simp
    next
      case (Cons x xs2')
      then have x: "x \<in> set ''<title>''"
        using 3(1) by (metis in_set_conv_decomp append.assoc list.set_intros(1) Un_iff set_append)
      have "x = hd (D @ B)"
        using 3(3) Cons by (auto simp: prefix_def)
      then have "x \<in> set D \<or> x = CHR 0x27"
        using B(1) by (cases D) auto
      then show ?thesis using x D title_tag_codes by auto
    qed
  qed
qed

lemma AppendHeader_closed_form:
  "AppendHeader output refresh unescaped_title =
     output @ ''<!DOCTYPE HTML>\<newline><html>\<newline><head>\<newline>''
     @ (if unescaped_title = [] then []
        else ''<title>'' @ EscapeForHTML unescaped_title @ ''</title>\<newline>'')
     @ ''<meta charset='utf-8'>\<newline>''
     @ (if refresh > 0
        then ''<meta http-equiv='refresh' content='' @ [CHR 0x27] @ NumberToString refresh
               @ [CHR 0x27] @ ''/>\<newline>''
        else [])"
  by (simp add: AppendHeader_def Let_def)

lemma AppendHeader_no_title_element:
  "\<not> sublist ''<title>'' (AppendHeader [] refresh [])"
proof (cases "refresh > 0")
  case False
  have "\<not> sublist ''<title>''
      (''<!DOCTYPE HTML>\<newline><html>\<newline><head>\<newline>'' @ ''<meta charset='utf-8'>\<newline>'')"
    by code_simp
  then show ?thesis using False by (simp add: AppendHeader_closed_form)
next
  case True
  let ?A = "''<!DOCTYPE HTML>\<newline><html>\<newline><head>\<newline>'' @ ''<meta charset='utf-8'>\<newline>''
      @ ''<meta http-equiv='refresh' content='' @ [CHR 0x27]"
  have A: "\<not> sublist ''<title>'' ?A"
    by code_simp
  have "\<not> sublist ''<title>'' (?A @ NumberToString refresh @ (CHR 0x27 # ''/>\<newline>''))"
    by (rule no_title_tag_around_number [OF A NumberToString_codes refl]) simp
  then show ?thesis using True by (simp add: AppendHeader_closed_form)
qed

text \<open>
  Claim C10. For every title, \<open>AppendHeader\<close> appends the document type and the opening
  tags, then, for a non-empty title only, the \<open>title\<close> element holding the HTML-escaped
  title, then the character set and, for a positive refresh time, the refresh element. The
  escaped title holds none of the characters \<open><\<close>, \<open>>\<close>, double quote and apostrophe, so
  no markup of the title reaches the page unescaped. With an empty title the header holds
  no \<open><title>\<close> tag at all, whatever the refresh time is.
\<close>

theorem AppendHeader_title_escaped:
  "AppendHeader output refresh unescaped_title =
     output @ ''<!DOCTYPE HTML>\<newline><html>\<newline><head>\<newline>''
     @ (if unescaped_title = [] then []
        else ''<title>'' @ EscapeForHTML unescaped_title @ ''</title>\<newline>'')
     @ ''<meta charset='utf-8'>\<newline>''
     @ (if refresh > 0
        then ''<meta http-equiv='refresh' content='' @ [CHR 0x27] @ NumberToString refresh
               @ [CHR 0x27] @ ''/>\<newline>''
        else [])
   \<and> set (EscapeForHTML unescaped_title) \<inter> {CHR ''<'', CHR ''>'', CHR 0x22, CHR 0x27} = {}
   \<and> \<not> sublist ''<title>'' (AppendHeader [] refresh [])
   \<and> AppendHeader [] 0 ''<b>Tom & Jerry</b>'' =
       ''<!DOCTYPE HTML>\<newline><html>\<newline><head>\<newline>''
       @ ''<title>&lt;b&gt;Tom &amp; Jerry&lt;/b&gt;</title>\<newline>''
       @ ''<meta charset='utf-8'>\<newline>''"
proof (intro conjI)
  show "AppendHeader [] 0 ''<b>Tom & Jerry</b>'' =
       ''<!DOCTYPE HTML>\<newline><html>\<newline><head>\<newline>''
       @ ''<title>&lt;b&gt;Tom &amp; Jerry&lt;/b&gt;</title>\<newline>''
       @ ''<meta charset='utf-8'>\<newline>''"
    by (simp add: AppendHeader_def EscapeForHTML_def AppendEscapedCharForHTML_def)
qed (rule AppendHeader_closed_form EscapeForHTML_no_markup AppendHeader_no_title_element)+

subsection \<open>The handlers run the callback once\<close>

lemma callback_Run: "callback_m (Run s) = callback_m s @ [contents_m s]"
  by (simp add: Run_def)

lemma callback_LoadOemEulaFileAsync [simp]:
  "callback_m (LoadOemEulaFileAsync h s) = callback_m s"
  by (simp add: LoadOemEulaFileAsync_def split: option.splits)

lemma path_LoadOemEulaFileAsync [simp]:
  "path_m (LoadOemEulaFileAsync h s) = path_m s"
  by (simp add: LoadOemEulaFileAsync_def split: option.splits)

lemma callback_LoadArcTerms_loop [simp]:
  "callback_m (LoadArcTerms_loop h K locales s) = callback_m s"
  by (induction locales) (simp_all split: option.splits)

lemma path_LoadArcTerms_loop [simp]:
  "path_m (LoadArcTerms_loop h K locales s) = path_m s"
  by (induction locales) (simp_all split: option.splits)

lemma callback_LoadArcPrivacyPolicy_loop [simp]:
  "callback_m (LoadArcPrivacyPolicy_loop h K locales s) = callback_m s"
  by (induction locales) (simp_all split: option.splits)

lemma path_LoadArcPrivacyPolicy_loop [simp]:
  "path_m (LoadArcPrivacyPolicy_loop h K locales s) = path_m s"
  by (induction locales) (simp_all split: option.splits)

lemma callback_ChromeOSTermsHandler_ResponseOnUIThread:
  "callback_m (ChromeOSTermsHandler_ResponseOnUIThread h s) =
     callback_m s @ [if contents_m s = [] \<and> path_m s = []
                     then LoadLocalizedResourceString h IDS_TERMS_HTML else contents_m s]"
  by (simp add: ChromeOSTermsHandler_ResponseOnUIThread_def callback_Run)

lemma callback_ChromeOSCreditsHandler_ResponseOnUIThread:
  "callback_m (ChromeOSCreditsHandler_ResponseOnUIThread h s) =
     callback_m s @ [if contents_m s = [] \<and> path_m s \<noteq> kKeyboardUtilsPath
                     then LoadDataResourceString h IDR_OS_CREDITS_HTML else contents_m s]"
  by (simp add: ChromeOSCreditsHandler_ResponseOnUIThread_def callback_Run)

lemma callback_CrostiniCreditsHandler_ResponseOnUIThread:
  "callback_m (CrostiniCreditsHandler_ResponseOnUIThread h s) =
     callback_m s @ [if contents_m s = [] \<and> path_m s \<noteq> kKeyboardUtilsPath
                     then GetStringUTF8 h IDS_CROSTINI_CREDITS_PLACEHOLDER else contents_m s]"
  by (simp add: CrostiniCreditsHandler_ResponseOnUIThread_def callback_Run)

lemmas response_callbacks =
  callback_ChromeOSTermsHandler_ResponseOnUIThread
  callback_ChromeOSCreditsHandler_ResponseOnUIThread
  callback_CrostiniCreditsHandler_ResponseOnUIThread

lemma ChromeOSTermsHandler_once:
  "length (callback_m (ChromeOSTermsHandler_Start h K path)) = 1"
  by (simp add: ChromeOSTermsHandler_Start_def ChromeOSTermsHandler_StartOnUIThread_def
      PostTaskAndReply_def LoadArcTermsFileAsync_def LoadArcPrivacyPolicyFileAsync_def
      response_callbacks)

lemma ChromeOSCreditsHandler_once:
  "length (callback_m (ChromeOSCreditsHandler_Start h K path)) = 1"
  by (simp add: ChromeOSCreditsHandler_Start_def ChromeOSCreditsHandler_StartOnUIThread_def
      PostTaskAndReply_def LoadCreditsFileAsync_def response_callbacks split: option.splits)

lemma CrostiniCreditsHandler_once:
  "length (callback_m (CrostiniCreditsHandler_Start h path)) = 1"
  by (simp add: CrostiniCreditsHandler_Start_def CrostiniCreditsHandler_StartOnUIThread_def
      OnTerminaLoaded_def LoadCredits_def RespondWithPlaceholder_def
      PostTaskAndReply_def LoadCrostiniCreditsFileAsync_def response_callbacks
      split: option.splits prod.splits)

lemma StartDataRequest_once:
  "length (StartDataRequest b K h source_name path) = 1"
  by (simp add: StartDataRequest_def FinishDataRequest_def ChromeOSTermsHandler_once
      ChromeOSCreditsHandler_once CrostiniCreditsHandler_once Let_def)

text \<open>
  Claim C4. Each of the three handlers (terms, OS credits, container-runtime credits), once
  started, has run its callback exactly once when the posted work is done: for every host
  (file found or missing, component manager absent, mount failed or succeeded) and every
  sub-path, known or not. The same holds for every request the data source starts.
\<close>

theorem callback_exactly_once:
  "length (callback_m (ChromeOSTermsHandler_Start h K path)) = 1
   \<and> length (callback_m (ChromeOSCreditsHandler_Start h K path)) = 1
   \<and> length (callback_m (CrostiniCreditsHandler_Start h path)) = 1
   \<and> length (StartDataRequest b K h source_name path) = 1"
  by (simp add: ChromeOSTermsHandler_once ChromeOSCreditsHandler_once
      CrostiniCreditsHandler_once StartDataRequest_once)

subsection \<open>What a handler answers when loading fails\<close>

lemma contents_LoadArcTerms_loop:
  "contents_m (LoadArcTerms_loop h K locales s) =
     (case List.map_filter
             (\<lambda>locale. ReadFileToString h (CreateDemoResourcesTermsPath h (ArcTermsPath K locale)))
             locales of
        [] \<Rightarrow> []
      | contents # _ \<Rightarrow> contents)"
  by (induction locales) (simp_all add: map_filter_simps split: option.splits)

lemma contents_LoadArcPrivacyPolicy_loop:
  "contents_m (LoadArcPrivacyPolicy_loop h K locales s) =
     (case List.map_filter
             (\<lambda>locale. ReadFileToString h
                (CreateDemoResourcesTermsPath h (ArcPrivacyPolicyPath K locale)))
             locales of
        [] \<Rightarrow> []
      | contents # _ \<Rightarrow> Base64Encode h contents)"
  by (induction locales) (simp_all add: map_filter_simps split: option.splits)

lemma contents_LoadOemEulaFileAsync:
  "contents_m s = [] \<Longrightarrow>
   contents_m (LoadOemEulaFileAsync h s) =
     (if customization_IsReady h
      then (case FileURLToFilePath h (GetEULAPage h (locale_m s)) of
              None \<Rightarrow> []
            | Some oem_eula_file_path \<Rightarrow>
                (case ReadFileToString h oem_eula_file_path of
                   None \<Rightarrow> []
                 | Some contents \<Rightarrow> contents))
      else [])"
  by (simp add: LoadOemEulaFileAsync_def split: option.splits)

lemma map_filter_all_None:
  "\<forall>x \<in> set xs. f x = None \<Longrightarrow> List.map_filter f xs = []"
  by (induction xs) (simp_all add: map_filter_simps)

lemma ChromeOSTermsHandler_Start_body:
  "callback_m (ChromeOSTermsHandler_Start h K path) =
     [let loaded =
        (if path = kOemEulaURLPath K then
           (if customization_IsReady h
            then (case FileURLToFilePath h (GetEULAPage h (GetApplicationLocale h)) of
                    None \<Rightarrow> []
                  | Some oem_eula_file_path \<Rightarrow>
                      (case ReadFileToString h oem_eula_file_path of
                         None \<Rightarrow> []
                       | Some contents \<Rightarrow> contents))
            else [])
         else if path = kArcTermsURLPath K then
           (case List.map_filter
                   (\<lambda>locale. ReadFileToString h
                      (CreateDemoResourcesTermsPath h (ArcTermsPath K locale)))
                   (CreateArcLocaleLookupArray h (GetApplicationLocale h)) of
              [] \<Rightarrow> []
            | contents # _ \<Rightarrow> contents)
         else if path = kArcPrivacyPolicyURLPath K then
           (case List.map_filter
                   (\<lambda>locale. ReadFileToString h
                      (CreateDemoResourcesTermsPath h (ArcPrivacyPolicyPath K locale)))
                   (CreateArcLocaleLookupArray h (GetApplicationLocale h)) of
              [] \<Rightarrow> []
            | contents # _ \<Rightarrow> Base64Encode h contents)
         else [])
      in if loaded = [] \<and> path = []
         then LoadLocalizedResourceString h IDS_TERMS_HTML else loaded]"
  by (simp add: ChromeOSTermsHandler_Start_def ChromeOSTermsHandler_StartOnUIThread_def
      PostTaskAndReply_def LoadArcTermsFileAsync_def LoadArcPrivacyPolicyFileAsync_def
      response_callbacks contents_LoadArcTerms_loop contents_LoadArcPrivacyPolicy_loop
      contents_LoadOemEulaFileAsync Let_def)

lemma ChromeOSTermsHandler_oem_fails:
  assumes "path \<noteq> []" and "path = kOemEulaURLPath K"
    and "\<forall>file. customization_IsReady h
           \<and> FileURLToFilePath h (GetEULAPage h (GetApplicationLocale h)) = Some file
           \<longrightarrow> ReadFileToString h file = None"
  shows "callback_m (ChromeOSTermsHandler_Start h K path) = ['''']"
  using assms by (auto simp: ChromeOSTermsHandler_Start_body Let_def split: option.splits)

lemma ChromeOSTermsHandler_arc_terms_fails:
  assumes "path \<noteq> []" and "path \<noteq> kOemEulaURLPath K" and "path = kArcTermsURLPath K"
    and "\<forall>locale \<in> set (CreateArcLocaleLookupArray h (GetApplicationLocale h)).
           ReadFileToString h (CreateDemoResourcesTermsPath h (ArcTermsPath K locale)) = None"
  shows "callback_m (ChromeOSTermsHandler_Start h K path) = ['''']"
  using assms(1,2,3) map_filter_all_None [OF assms(4)]
  by (simp add: ChromeOSTermsHandler_Start_body Let_def)

lemma ChromeOSTermsHandler_arc_privacy_fails:
  assumes "path \<noteq> []" and "path \<noteq> kOemEulaURLPath K" and "path \<noteq> kArcTermsURLPath K"
    and "path = kArcPrivacyPolicyURLPath K"
    and "\<forall>locale \<in> set (CreateArcLocaleLookupArray h (GetApplicationLocale h)).
           ReadFileToString h (CreateDemoResourcesTermsPath h (ArcPrivacyPolicyPath K locale))
             = None"
  shows "callback_m (ChromeOSTermsHandler_Start h K path) = ['''']"
  using assms(1,2,3,4) map_filter_all_None [OF assms(5)]
  by (simp add: ChromeOSTermsHandler_Start_body Let_def)

lemma ChromeOSTermsHandler_other_path:
  assumes "path \<noteq> []" and "path \<noteq> kOemEulaURLPath K" and "path \<noteq> kArcTermsURLPath K"
    and "path \<noteq> kArcPrivacyPolicyURLPath K"
  shows "callback_m (ChromeOSTermsHandler_Start h K path) = ['''']"
  using assms by (simp add: ChromeOSTermsHandler_Start_body Let_def)

lemma ChromeOSCreditsHandler_read_fails:
  assumes "path \<noteq> kKeyboardUtilsPath" and "ReadFileToString h (kChromeOSCreditsPath K) = None"
  shows "callback_m (ChromeOSCreditsHandler_Start h K path)
         = [LoadDataResourceString h IDR_OS_CREDITS_HTML]"
  using assms
  by (simp add: ChromeOSCreditsHandler_Start_def ChromeOSCreditsHandler_StartOnUIThread_def
      PostTaskAndReply_def LoadCreditsFileAsync_def response_callbacks)

lemma CrostiniCreditsHandler_load_fails:
  assumes "path \<noteq> kKeyboardUtilsPath"
    and "case cros_component_manager h of
           None \<Rightarrow> True
         | Some (error, mount_path) \<Rightarrow>
             error \<noteq> NONE \<or>
             ReadFileToString h (FilePath_Append h mount_path kTerminaCreditsPath) = None"
  shows "callback_m (CrostiniCreditsHandler_Start h path)
         = [GetStringUTF8 h IDS_CROSTINI_CREDITS_PLACEHOLDER]"
  using assms
  by (auto simp: CrostiniCreditsHandler_Start_def CrostiniCreditsHandler_StartOnUIThread_def
      OnTerminaLoaded_def LoadCredits_def RespondWithPlaceholder_def
      PostTaskAndReply_def LoadCrostiniCreditsFileAsync_def response_callbacks
      split: option.splits prod.splits)

text \<open>
  Claim C1 says that a terms or credits request whose disk read fails for every candidate,
  or whose component mount fails, is answered with the bundled placeholder and never with
  the empty string. On the device where nothing can be read, a request for the Play Store
  terms (sub-path \<open>arc/terms\<close>) tries the candidates \<open>en-us\<close> and \<open>en-us\<close>, reads no file,
  and is answered with the empty body, although the bundled terms are not empty.
\<close>

theorem terms_load_failure_empty_body:
  "CreateArcLocaleLookupArray bare_host (GetApplicationLocale bare_host) = [''en-us'', ''en-us'']
   \<and> ReadFileToString bare_host
         (CreateDemoResourcesTermsPath bare_host (ArcTermsPath chrome_constants ''en-us'')) = None
   \<and> callback_m (ChromeOSTermsHandler_Start bare_host chrome_constants ''arc/terms'') = ['''']
   \<and> LoadLocalizedResourceString bare_host IDS_TERMS_HTML = ''<html>Terms of Service</html>''"
  by code_simp

text \<open>
  Claim C1, amended. An OS credits request for a sub-path other than \<open>keyboard_utils.js\<close>
  whose credits file cannot be read is answered with the bundled OS credits. A
  container-runtime credits request for such a sub-path is answered with the placeholder
  string when there is no component manager, when the mount fails, or when the mount
  succeeds and the credits file cannot be read. A request to the terms handler, which the
  data source starts for a non-empty sub-path only, is answered with the empty body when
  the reads of that request fail: for the OEM EULA, when the customization document is not
  ready, its EULA page is no file URL, or the file cannot be read; for the Play Store terms
  and for the privacy policy, when the file of every candidate of the lookup array cannot
  be read; and for every other sub-path, which reads nothing. What else the device can
  read plays no part. The bundled terms replace an empty result only for the empty
  sub-path.
\<close>

theorem load_failure_response:
  "(path \<noteq> kKeyboardUtilsPath \<and> ReadFileToString h (kChromeOSCreditsPath K) = None \<longrightarrow>
      callback_m (ChromeOSCreditsHandler_Start h K path)
        = [LoadDataResourceString h IDR_OS_CREDITS_HTML])
   \<and> (path \<noteq> kKeyboardUtilsPath \<and> cros_component_manager h = None \<longrightarrow>
      callback_m (CrostiniCreditsHandler_Start h path)
        = [GetStringUTF8 h IDS_CROSTINI_CREDITS_PLACEHOLDER])
   \<and> (path \<noteq> kKeyboardUtilsPath \<and> cros_component_manager h = Some (error, mount_path)
        \<and> error \<noteq> NONE \<longrightarrow>
      callback_m (CrostiniCreditsHandler_Start h path)
        = [GetStringUTF8 h IDS_CROSTINI_CREDITS_PLACEHOLDER])
   \<and> (path \<noteq> kKeyboardUtilsPath \<and> cros_component_manager h = Some (NONE, mount_path)
        \<and> ReadFileToString h (FilePath_Append h mount_path kTerminaCreditsPath) = None \<longrightarrow>
      callback_m (CrostiniCreditsHandler_Start h path)
        = [GetStringUTF8 h IDS_CROSTINI_CREDITS_PLACEHOLDER])
   \<and> (path \<noteq> [] \<and> path = kOemEulaURLPath K
        \<and> (\<forall>file. customization_IsReady h
               \<and> FileURLToFilePath h (GetEULAPage h (GetApplicationLocale h)) = Some file
               \<longrightarrow> ReadFileToString h file = None) \<longrightarrow>
      callback_m (ChromeOSTermsHandler_Start h K path) = [''''])
   \<and> (path \<noteq> [] \<and> path \<noteq> kOemEulaURLPath K \<and> path = kArcTermsURLPath K
        \<and> (\<forall>locale \<in> set (CreateArcLocaleLookupArray h (GetApplicationLocale h)).
              ReadFileToString h (CreateDemoResourcesTermsPath h (ArcTermsPath K locale))
                = None) \<longrightarrow>
      callback_m (ChromeOSTermsHandler_Start h K path) = [''''])
   \<and> (path \<noteq> [] \<and> path \<noteq> kOemEulaURLPath K \<and> path \<noteq> kArcTermsURLPath K
        \<and> path = kArcPrivacyPolicyURLPath K
        \<and> (\<forall>locale \<in> set (CreateArcLocaleLookupArray h (GetApplicationLocale h)).
              ReadFileToString h
                (CreateDemoResourcesTermsPath h (ArcPrivacyPolicyPath K locale)) = None) \<longrightarrow>
      callback_m (ChromeOSTermsHandler_Start h K path) = [''''])
   \<and> (path \<noteq> [] \<and> path \<noteq> kOemEulaURLPath K \<and> path \<noteq> kArcTermsURLPath K
        \<and> path \<noteq> kArcPrivacyPolicyURLPath K \<longrightarrow>
      callback_m (ChromeOSTermsHandler_Start h K path) = [''''])"
proof (intro conjI impI)
  assume "path \<noteq> kKeyboardUtilsPath \<and> ReadFileToString h (kChromeOSCreditsPath K) = None"
  then show "callback_m (ChromeOSCreditsHandler_Start h K path)
      = [LoadDataResourceString h IDR_OS_CREDITS_HTML]"
    by (simp add: ChromeOSCreditsHandler_read_fails)
next
  assume "path \<noteq> kKeyboardUtilsPath \<and> cros_component_manager h = None"
  then show "callback_m (CrostiniCreditsHandler_Start h path)
      = [GetStringUTF8 h IDS_CROSTINI_CREDITS_PLACEHOLDER]"
    by (simp add: CrostiniCreditsHandler_load_fails)
next
  assume "path \<noteq> kKeyboardUtilsPath \<and> cros_component_manager h = Some (error, mount_path)
      \<and> error \<noteq> NONE"
  then show "callback_m (CrostiniCreditsHandler_Start h path)
      = [GetStringUTF8 h IDS_CROSTINI_CREDITS_PLACEHOLDER]"
    by (simp add: CrostiniCreditsHandler_load_fails)
next
  assume "path \<noteq> kKeyboardUtilsPath \<and> cros_component_manager h = Some (NONE, mount_path)
      \<and> ReadFileToString h (FilePath_Append h mount_path kTerminaCreditsPath) = None"
  then show "callback_m (CrostiniCreditsHandler_Start h path)
      = [GetStringUTF8 h IDS_CROSTINI_CREDITS_PLACEHOLDER]"
    by (simp add: CrostiniCreditsHandler_load_fails)
next
  assume "path \<noteq> [] \<and> path = kOemEulaURLPath K
        \<and> (\<forall>file. customization_IsReady h
               \<and> FileURLToFilePath h (GetEULAPage h (GetApplicationLocale h)) = Some file
               \<longrightarrow> ReadFileToString h file = None)"
  then show "callback_m (ChromeOSTermsHandler_Start h K path) = ['''']"
    by (intro ChromeOSTermsHandler_oem_fails) blast+
next
  assume "path \<noteq> [] \<and> path \<noteq> kOemEulaURLPath K \<and> path = kArcTermsURLPath K
        \<and> (\<forall>locale \<in> set (CreateArcLocaleLookupArray h (GetApplicationLocale h)).
              ReadFileToString h (CreateDemoResourcesTermsPath h (ArcTermsPath K locale))
                = None)"
  then show "callback_m (ChromeOSTermsHandler_Start h K path) = ['''']"
    by (intro ChromeOSTermsHandler_arc_terms_fails) blast+
next
  assume "path \<noteq> [] \<and> path \<noteq> kOemEulaURLPath K \<and> path \<noteq> kArcTermsURLPath K
        \<and> path = kArcPrivacyPolicyURLPath K
        \<and> (\<forall>locale \<in> set (CreateArcLocaleLookupArray h (GetApplicationLocale h)).
              ReadFileToString h
                (CreateDemoResourcesTermsPath h (ArcPrivacyPolicyPath K locale)) = None)"
  then show "callback_m (ChromeOSTermsHandler_Start h K path) = ['''']"
    by (intro ChromeOSTermsHandler_arc_privacy_fails) blast+
next
  assume "path \<noteq> [] \<and> path \<noteq> kOemEulaURLPath K \<and> path \<noteq> kArcTermsURLPath K
        \<and> path \<noteq> kArcPrivacyPolicyURLPath K"
  then show "callback_m (ChromeOSTermsHandler_Start h K path) = ['''']"
    by (intro ChromeOSTermsHandler_other_path) blast+
qed

lemma host_candidates:
  "CreateArcLocaleLookupArray credits_only_host (GetApplicationLocale credits_only_host)
     = [''en-us'', ''en-us'']"
  "CreateArcLocaleLookupArray demo_host (GetApplicationLocale demo_host) = [''en-us'', ''en-us'']"
  "CreateArcLocaleLookupArray bare_host (GetApplicationLocale bare_host) = [''en-us'', ''en-us'']"
  by code_simp+

text \<open>
  Claim C1, amended, on four devices: nothing readable, mount failed, mounted without a
  credits file, and a device that holds its OS credits file but no terms.
\<close>

theorem load_failure_response_witness:
  "ReadFileToString bare_host (kChromeOSCreditsPath chrome_constants) = None
   \<and> cros_component_manager bare_host = None
   \<and> cros_component_manager mount_failed_host = Some (FAILURE 1, [])
   \<and> cros_component_manager mounted_host = Some (NONE, ''/run/imageloader/cros-termina'')
   \<and> ReadFileToString mounted_host
         (FilePath_Append mounted_host ''/run/imageloader/cros-termina'' kTerminaCreditsPath) = None
   \<and> callback_m (ChromeOSCreditsHandler_Start bare_host chrome_constants '''')
     = [''<html>OS credits</html>'']
   \<and> callback_m (CrostiniCreditsHandler_Start bare_host '''')
     = [''Linux credits are not available'']
   \<and> callback_m (CrostiniCreditsHandler_Start mount_failed_host '''')
     = [''Linux credits are not available'']
   \<and> callback_m (CrostiniCreditsHandler_Start mounted_host ''credits.js'')
     = [''Linux credits are not available'']
   \<and> ReadFileToString credits_only_host (kChromeOSCreditsPath chrome_constants)
     = Some ''<html>Credits of this device</html>''
   \<and> callback_m (ChromeOSTermsHandler_Start credits_only_host chrome_constants ''oem'') = ['''']
   \<and> callback_m (ChromeOSTermsHandler_Start credits_only_host chrome_constants ''arc/terms'')
     = ['''']
   \<and> callback_m (ChromeOSTermsHandler_Start credits_only_host chrome_constants
         ''arc/privacy_policy'') = ['''']
   \<and> callback_m (ChromeOSTermsHandler_Start credits_only_host chrome_constants ''eula'') = ['''']"
proof -
  have K: "kOemEulaURLPath chrome_constants = ''oem''"
    "kArcTermsURLPath chrome_constants = ''arc/terms''"
    "kArcPrivacyPolicyURLPath chrome_constants = ''arc/privacy_policy''"
    "ArcTermsPath chrome_constants ''en-us'' = ''arc_tos/en-us/terms.html''"
    "ArcPrivacyPolicyPath chrome_constants ''en-us'' = ''arc_tos/en-us/privacy_policy.pdf''"
    by (simp_all add: chrome_constants_def)
  have os: "callback_m (ChromeOSCreditsHandler_Start bare_host chrome_constants [])
      = [''<html>OS credits</html>'']"
    using load_failure_response [of "[]" bare_host chrome_constants "FAILURE 1" "[]"]
    by (simp add: bare_host_def no_file_def kKeyboardUtilsPath_def)
  have none: "callback_m (CrostiniCreditsHandler_Start bare_host [])
      = [''Linux credits are not available'']"
    using load_failure_response [of "[]" bare_host chrome_constants "FAILURE 1" "[]"]
    by (simp add: bare_host_def kKeyboardUtilsPath_def)
  have failed: "callback_m (CrostiniCreditsHandler_Start mount_failed_host [])
      = [''Linux credits are not available'']"
    using load_failure_response [of "[]" mount_failed_host chrome_constants "FAILURE 1" "[]"]
    by (simp add: mount_failed_host_def bare_host_def kKeyboardUtilsPath_def)
  have mounted: "callback_m (CrostiniCreditsHandler_Start mounted_host ''credits.js'')
      = [''Linux credits are not available'']"
    using load_failure_response [of "''credits.js''" mounted_host chrome_constants "FAILURE 1"
        "''/run/imageloader/cros-termina''"]
    by (simp add: mounted_host_def bare_host_def no_file_def kKeyboardUtilsPath_def)
  have only_fields: "ReadFileToString credits_only_host = credits_file"
    "default_controller credits_only_host = None"
    "customization_IsReady credits_only_host = False"
    by (simp_all add: credits_only_host_def bare_host_def)
  have oem: "callback_m (ChromeOSTermsHandler_Start credits_only_host chrome_constants ''oem'')
      = [[]]"
    using load_failure_response [of "''oem''" credits_only_host chrome_constants "FAILURE 1" "[]"]
    by (simp add: only_fields K)
  have arc: "callback_m (ChromeOSTermsHandler_Start credits_only_host chrome_constants
      ''arc/terms'') = [[]]"
    using load_failure_response
        [of "''arc/terms''" credits_only_host chrome_constants "FAILURE 1" "[]"]
    by (simp add: host_candidates only_fields K credits_file_def
        CreateDemoResourcesTermsPath_def)
  have privacy: "callback_m (ChromeOSTermsHandler_Start credits_only_host chrome_constants
      ''arc/privacy_policy'') = [[]]"
    using load_failure_response
        [of "''arc/privacy_policy''" credits_only_host chrome_constants "FAILURE 1" "[]"]
    by (simp add: host_candidates only_fields K credits_file_def
        CreateDemoResourcesTermsPath_def)
  have other: "callback_m (ChromeOSTermsHandler_Start credits_only_host chrome_constants ''eula'')
      = [[]]"
    using load_failure_response [of "''eula''" credits_only_host chrome_constants "FAILURE 1" "[]"]
    by (simp add: K)
  have hyps: "ReadFileToString bare_host (kChromeOSCreditsPath chrome_constants) = None"
    "cros_component_manager bare_host = None"
    "cros_component_manager mount_failed_host = Some (FAILURE 1, [])"
    "cros_component_manager mounted_host = Some (NONE, ''/run/imageloader/cros-termina'')"
    "ReadFileToString mounted_host
       (FilePath_Append mounted_host ''/run/imageloader/cros-termina'' kTerminaCreditsPath) = None"
    "ReadFileToString credits_only_host (kChromeOSCreditsPath chrome_constants)
       = Some ''<html>Credits of this device</html>''"
    by (simp_all add: bare_host_def mount_failed_host_def mounted_host_def no_file_def
        credits_only_host_def credits_file_def chrome_constants_def)
  show ?thesis
    using hyps os none failed mounted oem arc privacy other by simp
qed

subsection \<open>Which requests get a non-empty body\<close>

lemma StartDataRequest_body_nonempty:
  assumes "source_name = kChromeUIChromeURLsHost K \<or> source_name = kChromeUICreditsHost K
      \<or> (OS_LINUX_LIKE b \<and> source_name = kChromeUILinuxProxyConfigHost K)
      \<or> (IS_CHROMEOS_ASH b \<and> source_name = kChromeUIOSCreditsHost K)
      \<or> (IS_CHROMEOS_ASH b \<and> source_name = kChromeUICrostiniCreditsHost K)
      \<or> (\<not> OS_ANDROID b \<and> source_name = kChromeUITermsHost K)"
    and "\<not> (IS_CHROMEOS_ASH b \<and> \<not> OS_ANDROID b \<and> source_name = kChromeUITermsHost K
          \<and> source_name \<noteq> kChromeUIChromeURLsHost K
          \<and> source_name \<noteq> kChromeUICreditsHost K
          \<and> \<not> (OS_LINUX_LIKE b \<and> source_name = kChromeUILinuxProxyConfigHost K)
          \<and> source_name \<noteq> kChromeUIOSCreditsHost K
          \<and> source_name \<noteq> kChromeUICrostiniCreditsHost K
          \<and> path \<noteq> [])"
    and "GetCredits h True \<noteq> []"
    and "LoadDataResourceString h IDR_ABOUT_UI_CREDITS_JS \<noteq> []"
    and "LoadDataResourceString h IDR_KEYBOARD_UTILS_JS \<noteq> []"
    and "LoadDataResourceString h IDR_OS_CREDITS_HTML \<noteq> []"
    and "GetStringUTF8 h IDS_CROSTINI_CREDITS_PLACEHOLDER \<noteq> []"
    and "LoadLocalizedResourceString h IDS_TERMS_HTML \<noteq> []"
  shows "[] \<notin> set (StartDataRequest b K h source_name path)"
proof -
  have urls: "ChromeURLs K \<noteq> []"
    by (simp add: ChromeURLs_def AppendFooter_def Let_def)
  have proxy: "AboutLinuxProxyConfig h \<noteq> []"
    by (simp add: AboutLinuxProxyConfig_def AppendFooter_def Let_def)
  have os: "[] \<notin> set (callback_m (ChromeOSCreditsHandler_Start h K path))"
    using assms(5,6)
    by (auto simp: ChromeOSCreditsHandler_Start_def ChromeOSCreditsHandler_StartOnUIThread_def
        PostTaskAndReply_def LoadCreditsFileAsync_def response_callbacks split: option.splits)
  have crostini: "[] \<notin> set (callback_m (CrostiniCreditsHandler_Start h path))"
    using assms(5,7)
    by (auto simp: CrostiniCreditsHandler_Start_def CrostiniCreditsHandler_StartOnUIThread_def
        OnTerminaLoaded_def LoadCredits_def RespondWithPlaceholder_def
        PostTaskAndReply_def LoadCrostiniCreditsFileAsync_def response_callbacks
        split: option.splits prod.splits)
  show ?thesis
    using assms(1,2,3,4,5,8) urls proxy os crostini
    by (auto simp: StartDataRequest_def FinishDataRequest_def Let_def)
qed

lemma StartDataRequest_terms_reaches_handler:
  assumes "IS_CHROMEOS_ASH b \<and> \<not> OS_ANDROID b \<and> source_name = kChromeUITermsHost K
          \<and> source_name \<noteq> kChromeUIChromeURLsHost K
          \<and> source_name \<noteq> kChromeUICreditsHost K
          \<and> \<not> (OS_LINUX_LIKE b \<and> source_name = kChromeUILinuxProxyConfigHost K)
          \<and> source_name \<noteq> kChromeUIOSCreditsHost K
          \<and> source_name \<noteq> kChromeUICrostiniCreditsHost K
          \<and> path \<noteq> []"
  shows "StartDataRequest b K h source_name path
         = callback_m (ChromeOSTermsHandler_Start h K path)"
proof -
  from assms have src: "source_name = kChromeUITermsHost K" by blast
  from assms have facts: "IS_CHROMEOS_ASH b" "\<not> OS_ANDROID b"
    "kChromeUITermsHost K \<noteq> kChromeUIChromeURLsHost K"
    "kChromeUITermsHost K \<noteq> kChromeUICreditsHost K"
    "\<not> (OS_LINUX_LIKE b \<and> kChromeUITermsHost K = kChromeUILinuxProxyConfigHost K)"
    "kChromeUITermsHost K \<noteq> kChromeUIOSCreditsHost K"
    "kChromeUITermsHost K \<noteq> kChromeUICrostiniCreditsHost K"
    "path \<noteq> []"
    by auto
  show ?thesis
    unfolding src StartDataRequest_def using facts by auto
qed

text \<open>
  Claim C7 says that the router answers every supported host name with a non-empty body.
  In the Chrome OS build, on the device where nothing can be read, the request for the
  host \<open>terms\<close> with the sub-path \<open>arc/terms\<close> is answered with the empty body.
\<close>

theorem StartDataRequest_terms_empty_body:
  "StartDataRequest ash_build chrome_constants bare_host ''terms'' ''arc/terms'' = ['''']"
  by code_simp

text \<open>
  Claim C7, amended. When the bundled resources the router consults are not empty, every
  request for a host name the build supports is answered with exactly one non-empty body,
  except a request that reaches the terms handler: the terms host with a non-empty
  sub-path in the Chrome OS build. Such a request is answered by the terms handler with
  what it loaded and nothing else: the OEM EULA file for the sub-path of the OEM EULA, the
  file of the first candidate of the lookup array that can be read for the Play Store
  terms, the same in base 64 for the privacy policy, and the empty body for every other
  sub-path. So the body is empty exactly when that load gives nothing, in particular when
  the reads of the request fail, whatever else the device can read.
\<close>

theorem StartDataRequest_nonempty_body:
  "((source_name = kChromeUIChromeURLsHost K \<or> source_name = kChromeUICreditsHost K
      \<or> (OS_LINUX_LIKE b \<and> source_name = kChromeUILinuxProxyConfigHost K)
      \<or> (IS_CHROMEOS_ASH b \<and> source_name = kChromeUIOSCreditsHost K)
      \<or> (IS_CHROMEOS_ASH b \<and> source_name = kChromeUICrostiniCreditsHost K)
      \<or> (\<not> OS_ANDROID b \<and> source_name = kChromeUITermsHost K))
    \<and> \<not> (IS_CHROMEOS_ASH b \<and> \<not> OS_ANDROID b \<and> source_name = kChromeUITermsHost K
          \<and> source_name \<noteq> kChromeUIChromeURLsHost K
          \<and> source_name \<noteq> kChromeUICreditsHost K
          \<and> \<not> (OS_LINUX_LIKE b \<and> source_name = kChromeUILinuxProxyConfigHost K)
          \<and> source_name \<noteq> kChromeUIOSCreditsHost K
          \<and> source_name \<noteq> kChromeUICrostiniCreditsHost K
          \<and> path \<noteq> [])
    \<and> GetCredits h True \<noteq> []
    \<and> LoadDataResourceString h IDR_ABOUT_UI_CREDITS_JS \<noteq> []
    \<and> LoadDataResourceString h IDR_KEYBOARD_UTILS_JS \<noteq> []
    \<and> LoadDataResourceString h IDR_OS_CREDITS_HTML \<noteq> []
    \<and> GetStringUTF8 h IDS_CROSTINI_CREDITS_PLACEHOLDER \<noteq> []
    \<and> LoadLocalizedResourceString h IDS_TERMS_HTML \<noteq> []
    \<longrightarrow> length (StartDataRequest b K h source_name path) = 1
        \<and> [] \<notin> set (StartDataRequest b K h source_name path))
   \<and> (IS_CHROMEOS_ASH b \<and> \<not> OS_ANDROID b \<and> source_name = kChromeUITermsHost K
          \<and> source_name \<noteq> kChromeUIChromeURLsHost K
          \<and> source_name \<noteq> kChromeUICreditsHost K
          \<and> \<not> (OS_LINUX_LIKE b \<and> source_name = kChromeUILinuxProxyConfigHost K)
          \<and> source_name \<noteq> kChromeUIOSCreditsHost K
          \<and> source_name \<noteq> kChromeUICrostiniCreditsHost K
          \<and> path \<noteq> []
    \<longrightarrow> StartDataRequest b K h source_name path
          = callback_m (ChromeOSTermsHandler_Start h K path)
        \<and> StartDataRequest b K h source_name path =
          [if path = kOemEulaURLPath K then
             (if customization_IsReady h
              then (case FileURLToFilePath h (GetEULAPage h (GetApplicationLocale h)) of
                      None \<Rightarrow> []
                    | Some oem_eula_file_path \<Rightarrow>
                        (case ReadFileToString h oem_eula_file_path of
                           None \<Rightarrow> []
                         | Some contents \<Rightarrow> contents))
              else [])
           else if path = kArcTermsURLPath K then
             (case List.map_filter
                     (\<lambda>locale. ReadFileToString h
                        (CreateDemoResourcesTermsPath h (ArcTermsPath K locale)))
                     (CreateArcLocaleLookupArray h (GetApplicationLocale h)) of
                [] \<Rightarrow> []
              | contents # _ \<Rightarrow> contents)
           else if path = kArcPrivacyPolicyURLPath K then
             (case List.map_filter
                     (\<lambda>locale. ReadFileToString h
                        (CreateDemoResourcesTermsPath h (ArcPrivacyPolicyPath K locale)))
                     (CreateArcLocaleLookupArray h (GetApplicationLocale h)) of
                [] \<Rightarrow> []
              | contents # _ \<Rightarrow> Base64Encode h contents)
           else []]
        \<and> (path = kOemEulaURLPath K
             \<and> (\<forall>file. customization_IsReady h
                   \<and> FileURLToFilePath h (GetEULAPage h (GetApplicationLocale h)) = Some file
                   \<longrightarrow> ReadFileToString h file = None)
             \<longrightarrow> StartDataRequest b K h source_name path = [''''])
        \<and> (path \<noteq> kOemEulaURLPath K \<and> path = kArcTermsURLPath K
             \<and> (\<forall>locale \<in> set (CreateArcLocaleLookupArray h (GetApplicationLocale h)).
                   ReadFileToString h (CreateDemoResourcesTermsPath h (ArcTermsPath K locale))
                     = None)
             \<longrightarrow> StartDataRequest b K h source_name path = [''''])
        \<and> (path \<noteq> kOemEulaURLPath K \<and> path \<noteq> kArcTermsURLPath K
             \<and> path = kArcPrivacyPolicyURLPath K
             \<and> (\<forall>locale \<in> set (CreateArcLocaleLookupArray h (GetApplicationLocale h)).
                   ReadFileToString h
                     (CreateDemoResourcesTermsPath h (ArcPrivacyPolicyPath K locale)) = None)
             \<longrightarrow> StartDataRequest b K h source_name path = [''''])
        \<and> (path \<noteq> kOemEulaURLPath K \<and> path \<noteq> kArcTermsURLPath K
             \<and> path \<noteq> kArcPrivacyPolicyURLPath K
             \<longrightarrow> StartDataRequest b K h source_name path = ['''']))"
proof (intro conjI impI)
  assume a: "(source_name = kChromeUIChromeURLsHost K \<or> source_name = kChromeUICreditsHost K
      \<or> (OS_LINUX_LIKE b \<and> source_name = kChromeUILinuxProxyConfigHost K)
      \<or> (IS_CHROMEOS_ASH b \<and> source_name = kChromeUIOSCreditsHost K)
      \<or> (IS_CHROMEOS_ASH b \<and> source_name = kChromeUICrostiniCreditsHost K)
      \<or> (\<not> OS_ANDROID b \<and> source_name = kChromeUITermsHost K))
    \<and> \<not> (IS_CHROMEOS_ASH b \<and> \<not> OS_ANDROID b \<and> source_name = kChromeUITermsHost K
          \<and> source_name \<noteq> kChromeUIChromeURLsHost K
          \<and> source_name \<noteq> kChromeUICreditsHost K
          \<and> \<not> (OS_LINUX_LIKE b \<and> source_name = kChromeUILinuxProxyConfigHost K)
          \<and> source_name \<noteq> kChromeUIOSCreditsHost K
          \<and> source_name \<noteq> kChromeUICrostiniCreditsHost K
          \<and> path \<noteq> [])
    \<and> GetCredits h True \<noteq> []
    \<and> LoadDataResourceString h IDR_ABOUT_UI_CREDITS_JS \<noteq> []
    \<and> LoadDataResourceString h IDR_KEYBOARD_UTILS_JS \<noteq> []
    \<and> LoadDataResourceString h IDR_OS_CREDITS_HTML \<noteq> []
    \<and> GetStringUTF8 h IDS_CROSTINI_CREDITS_PLACEHOLDER \<noteq> []
    \<and> LoadLocalizedResourceString h IDS_TERMS_HTML \<noteq> []"
  show "length (StartDataRequest b K h source_name path) = 1"
    by (rule StartDataRequest_once)
  show "[] \<notin> set (StartDataRequest b K h source_name path)"
    using a by (intro StartDataRequest_body_nonempty) blast+
next
  assume r: "IS_CHROMEOS_ASH b \<and> \<not> OS_ANDROID b \<and> source_name = kChromeUITermsHost K
          \<and> source_name \<noteq> kChromeUIChromeURLsHost K
          \<and> source_name \<noteq> kChromeUICreditsHost K
          \<and> \<not> (OS_LINUX_LIKE b \<and> source_name = kChromeUILinuxProxyConfigHost K)
          \<and> source_name \<noteq> kChromeUIOSCreditsHost K
          \<and> source_name \<noteq> kChromeUICrostiniCreditsHost K
          \<and> path \<noteq> []"
  then have p: "path \<noteq> []" by blast
  note handler = StartDataRequest_terms_reaches_handler [OF r]
  show "StartDataRequest b K h source_name path
          = callback_m (ChromeOSTermsHandler_Start h K path)"
    by (rule handler)
  show "StartDataRequest b K h source_name path =
          [if path = kOemEulaURLPath K then
             (if customization_IsReady h
              then (case FileURLToFilePath h (GetEULAPage h (GetApplicationLocale h)) of
                      None \<Rightarrow> []
                    | Some oem_eula_file_path \<Rightarrow>
                        (case ReadFileToString h oem_eula_file_path of
                           None \<Rightarrow> []
                         | Some contents \<Rightarrow> contents))
              else [])
           else if path = kArcTermsURLPath K then
             (case List.map_filter
                     (\<lambda>locale. ReadFileToString h
                        (CreateDemoResourcesTermsPath h (ArcTermsPath K locale)))
                     (CreateArcLocaleLookupArray h (GetApplicationLocale h)) of
                [] \<Rightarrow> []
              | contents # _ \<Rightarrow> contents)
           else if path = kArcPrivacyPolicyURLPath K then
             (case List.map_filter
                     (\<lambda>locale. ReadFileToString h
                        (CreateDemoResourcesTermsPath h (ArcPrivacyPolicyPath K locale)))
                     (CreateArcLocaleLookupArray h (GetApplicationLocale h)) of
                [] \<Rightarrow> []
              | contents # _ \<Rightarrow> Base64Encode h contents)
           else []]"
    using p by (simp add: handler ChromeOSTermsHandler_Start_body Let_def)
  {
    assume "path = kOemEulaURLPath K
             \<and> (\<forall>file. customization_IsReady h
                   \<and> FileURLToFilePath h (GetEULAPage h (GetApplicationLocale h)) = Some file
                   \<longrightarrow> ReadFileToString h file = None)"
    then show "StartDataRequest b K h source_name path = ['''']"
      unfolding handler using p by (intro ChromeOSTermsHandler_oem_fails) blast+
  }
  {
    assume "path \<noteq> kOemEulaURLPath K \<and> path = kArcTermsURLPath K
             \<and> (\<forall>locale \<in> set (CreateArcLocaleLookupArray h (GetApplicationLocale h)).
                   ReadFileToString h (CreateDemoResourcesTermsPath h (ArcTermsPath K locale))
                     = None)"
    then show "StartDataRequest b K h source_name path = ['''']"
      unfolding handler using p by (intro ChromeOSTermsHandler_arc_terms_fails) blast+
  }
  {
    assume "path \<noteq> kOemEulaURLPath K \<and> path \<noteq> kArcTermsURLPath K
             \<and> path = kArcPrivacyPolicyURLPath K
             \<and> (\<forall>locale \<in> set (CreateArcLocaleLookupArray h (GetApplicationLocale h)).
                   ReadFileToString h
                     (CreateDemoResourcesTermsPath h (ArcPrivacyPolicyPath K locale)) = None)"
    then show "StartDataRequest b K h source_name path = ['''']"
      unfolding handler using p by (intro ChromeOSTermsHandler_arc_privacy_fails) blast+
  }
  {
    assume "path \<noteq> kOemEulaURLPath K \<and> path \<noteq> kArcTermsURLPath K
             \<and> path \<noteq> kArcPrivacyPolicyURLPath K"
    then show "StartDataRequest b K h source_name path = ['''']"
      unfolding handler using p by (intro ChromeOSTermsHandler_other_path) blast+
  }
qed

text \<open>
  Claim C7, amended, at requests for OS credits in the Chrome OS build, for terms with a
  sub-path in the desktop build, and for terms with a sub-path in the Chrome OS build: on
  a demo device that holds the terms for \<open>en-us\<close>, and on a device that holds its OS
  credits file but no terms.
\<close>

theorem StartDataRequest_nonempty_body_witness:
  "GetCredits bare_host True \<noteq> []
   \<and> LoadDataResourceString bare_host IDR_ABOUT_UI_CREDITS_JS \<noteq> []
   \<and> LoadDataResourceString bare_host IDR_KEYBOARD_UTILS_JS \<noteq> []
   \<and> LoadDataResourceString bare_host IDR_OS_CREDITS_HTML \<noteq> []
   \<and> GetStringUTF8 bare_host IDS_CROSTINI_CREDITS_PLACEHOLDER \<noteq> []
   \<and> LoadLocalizedResourceString bare_host IDS_TERMS_HTML \<noteq> []
   \<and> length (StartDataRequest ash_build chrome_constants bare_host ''os-credits'' '''') = 1
   \<and> [] \<notin> set (StartDataRequest ash_build chrome_constants bare_host ''os-credits'' '''')
   \<and> length (StartDataRequest linux_build chrome_constants bare_host ''terms'' ''oem'') = 1
   \<and> [] \<notin> set (StartDataRequest linux_build chrome_constants bare_host ''terms'' ''oem'')
   \<and> StartDataRequest ash_build chrome_constants demo_host ''terms'' ''arc/terms''
       = [''US terms'']
   \<and> StartDataRequest ash_build chrome_constants credits_only_host ''terms'' ''arc/terms''
       = ['''']
   \<and> StartDataRequest ash_build chrome_constants credits_only_host ''terms'' ''oem'' = ['''']
   \<and> StartDataRequest ash_build chrome_constants credits_only_host ''terms''
         ''arc/privacy_policy'' = ['''']
   \<and> StartDataRequest ash_build chrome_constants credits_only_host ''terms'' ''eula'' = ['''']"
proof -
  have K: "kChromeUIChromeURLsHost chrome_constants = ''chrome-urls''"
    "kChromeUICreditsHost chrome_constants = ''credits''"
    "kChromeUILinuxProxyConfigHost chrome_constants = ''linux-proxy-config''"
    "kChromeUIOSCreditsHost chrome_constants = ''os-credits''"
    "kChromeUICrostiniCreditsHost chrome_constants = ''crostini-credits''"
    "kChromeUITermsHost chrome_constants = ''terms''"
    "kOemEulaURLPath chrome_constants = ''oem''"
    "kArcTermsURLPath chrome_constants = ''arc/terms''"
    "kArcPrivacyPolicyURLPath chrome_constants = ''arc/privacy_policy''"
    "ArcTermsPath chrome_constants ''en-us'' = ''arc_tos/en-us/terms.html''"
    "ArcPrivacyPolicyPath chrome_constants ''en-us'' = ''arc_tos/en-us/privacy_policy.pdf''"
    by (simp_all add: chrome_constants_def)
  have B: "IS_CHROMEOS_ASH ash_build" "OS_LINUX_LIKE ash_build" "\<not> OS_ANDROID ash_build"
    "\<not> IS_CHROMEOS_ASH linux_build" "OS_LINUX_LIKE linux_build" "\<not> OS_ANDROID linux_build"
    by (simp_all add: ash_build_def linux_build_def)
  have res: "GetCredits bare_host True \<noteq> []"
    "LoadDataResourceString bare_host IDR_ABOUT_UI_CREDITS_JS \<noteq> []"
    "LoadDataResourceString bare_host IDR_KEYBOARD_UTILS_JS \<noteq> []"
    "LoadDataResourceString bare_host IDR_OS_CREDITS_HTML \<noteq> []"
    "GetStringUTF8 bare_host IDS_CROSTINI_CREDITS_PLACEHOLDER \<noteq> []"
    "LoadLocalizedResourceString bare_host IDS_TERMS_HTML \<noteq> []"
    by (simp_all add: bare_host_def)
  have os: "length (StartDataRequest ash_build chrome_constants bare_host ''os-credits'' []) = 1
      \<and> [] \<notin> set (StartDataRequest ash_build chrome_constants bare_host ''os-credits'' [])"
    using StartDataRequest_nonempty_body
        [of "''os-credits''" chrome_constants ash_build "[]" bare_host, THEN conjunct1]
    by (simp add: K B res)
  have desktop:
    "length (StartDataRequest linux_build chrome_constants bare_host ''terms'' ''oem'') = 1
      \<and> [] \<notin> set (StartDataRequest linux_build chrome_constants bare_host ''terms'' ''oem'')"
    using StartDataRequest_nonempty_body
        [of "''terms''" chrome_constants linux_build "''oem''" bare_host, THEN conjunct1]
    by (simp add: K B res)
  have demo_fields: "ReadFileToString demo_host = demo_file"
    "default_controller demo_host
       = Some \<lparr>demo_setup_controller = Some (\<lambda>file_path. ''/demo/'' @ file_path)\<rparr>"
    by (simp_all add: demo_host_def)
  have demo: "StartDataRequest ash_build chrome_constants demo_host ''terms'' ''arc/terms''
      = [''US terms'']"
    using StartDataRequest_nonempty_body
        [of "''terms''" chrome_constants ash_build "''arc/terms''" demo_host, THEN conjunct2]
    by (auto simp: K B host_candidates demo_fields demo_file_def
        CreateDemoResourcesTermsPath_def map_filter_simps)
  have only_fields: "ReadFileToString credits_only_host = credits_file"
    "default_controller credits_only_host = None"
    "customization_IsReady credits_only_host = False"
    by (simp_all add: credits_only_host_def bare_host_def)
  have arc: "StartDataRequest ash_build chrome_constants credits_only_host ''terms'' ''arc/terms''
      = [[]]"
    using StartDataRequest_nonempty_body
        [of "''terms''" chrome_constants ash_build "''arc/terms''" credits_only_host,
         THEN conjunct2]
    by (auto simp: K B host_candidates only_fields credits_file_def
        CreateDemoResourcesTermsPath_def)
  have oem: "StartDataRequest ash_build chrome_constants credits_only_host ''terms'' ''oem'' = [[]]"
    using StartDataRequest_nonempty_body
        [of "''terms''" chrome_constants ash_build "''oem''" credits_only_host, THEN conjunct2]
    by (auto simp: K B only_fields)
  have privacy: "StartDataRequest ash_build chrome_constants credits_only_host ''terms''
         ''arc/privacy_policy'' = [[]]"
    using StartDataRequest_nonempty_body
        [of "''terms''" chrome_constants ash_build "''arc/privacy_policy''" credits_only_host,
         THEN conjunct2]
    by (auto simp: K B host_candidates only_fields credits_file_def
        CreateDemoResourcesTermsPath_def)
  have other: "StartDataRequest ash_build chrome_constants credits_only_host ''terms'' ''eula''
      = [[]]"
    using StartDataRequest_nonempty_body
        [of "''terms''" chrome_constants ash_build "''eula''" credits_only_host, THEN conjunct2]
    by (auto simp: K B)
  show ?thesis
    using res os desktop demo arc oem privacy other by simp
qed

end
